theory Spec2Isabelle
  imports Complex_Main "HOL-Library.Monad_Syntax" "HOL-Library.AList"
begin

section \<open>Python string and integer helpers\<close>

text \<open>
  Strings are \<open>char list\<close>; the model covers the ASCII range of the input lines.
  \<open>is_space\<close> is the ASCII part of \<open>str.isspace\<close>, which \<open>str.strip\<close> removes.
\<close>

definition is_space :: "char \<Rightarrow> bool" where
  "is_space c = ((of_char c :: nat) \<in> {9, 10, 11, 12, 13, 28, 29, 30, 31, 32})"

definition lstrip :: "string \<Rightarrow> string" where
  "lstrip s = dropWhile is_space s"

definition rstrip :: "string \<Rightarrow> string" where
  "rstrip s = rev (dropWhile is_space (rev s))"

definition strip :: "string \<Rightarrow> string" where
  "strip s = rstrip (lstrip s)"

text \<open>\<open>s.split(d)\<close> for a one-character separator: never empty, \<open>"".split(",") = [""]\<close>.\<close>

fun split_on :: "char \<Rightarrow> string \<Rightarrow> string list" where
  "split_on d [] = [[]]"
| "split_on d (c # cs) =
     (if c = d then [] # split_on d cs
      else (case split_on d cs of
              [] \<Rightarrow> [[c]]
            | r # rs \<Rightarrow> (c # r) # rs))"

definition digit_char :: "nat \<Rightarrow> char" where
  \<comment> \<open>the decimal digit \<open>d < 10\<close>\<close>
  "digit_char d = ''0123456789'' ! d"

text \<open>Decimal rendering of a non-negative integer, as \<open>str(n)\<close> and \<open>f"{n}"\<close> give it.\<close>

fun show_nat :: "nat \<Rightarrow> string" where
  "show_nat n =
     (if n < 10 then [digit_char n]
      else show_nat (n div 10) @ [digit_char (n mod 10)])"

declare show_nat.simps [simp del]

text \<open>\<open>f"{n:0wd}"\<close> for \<open>n \<ge> 0\<close>: zeros on the left up to width \<open>w\<close>, never truncating.\<close>

definition zero_pad :: "nat \<Rightarrow> nat \<Rightarrow> string" where
  "zero_pad w n = replicate (w - length (show_nat n)) (CHR ''0'') @ show_nat n"

text \<open>\<open>s.ljust(w)\<close>: spaces on the right up to width \<open>w\<close>, never truncating.\<close>

definition ljust :: "nat \<Rightarrow> string \<Rightarrow> string" where
  "ljust w s = s @ replicate (w - length s) (CHR '' '')"

section \<open>AIS payload decoder\<close>

text \<open>
  \<open>sixbit_unpack\<close> renders every payload character as six characters \<open>0\<close>/\<open>1\<close>; the bit
  string is modelled as a \<open>bool list\<close> (\<open>True\<close> for \<open>1\<close>), most significant bit first.
\<close>

type_synonym bits = "bool list"

definition ASCII2SIX :: "char \<Rightarrow> nat" where
  \<comment> \<open>\<open>_ASCII2SIX.get(ch, 0)\<close>: the table has the keys 48..119\<close>
  "ASCII2SIX ch =
     (let i = (of_char ch :: nat) in
      if 48 \<le> i \<and> i < 120 then (if i < 88 then i - 48 else i - 56) else 0)"

definition six_bits :: "nat \<Rightarrow> bits" where
  \<comment> \<open>\<open>f"{v:06b}"\<close> for \<open>v < 64\<close>\<close>
  "six_bits v = map (\<lambda>k. odd (v div 2 ^ k)) [5, 4, 3, 2, 1, 0]"

definition sixbit_unpack :: "string \<Rightarrow> bits" where
  "sixbit_unpack payload = concat (map (\<lambda>ch. six_bits (ASCII2SIX ch)) payload)"

definition bin_val :: "bits \<Rightarrow> nat" where
  "bin_val b = foldl (\<lambda>acc x. 2 * acc + (if x then 1 else 0)) 0 b"

text \<open>
  \<open>_u\<close>: \<open>int(bits[start:start+length], 2)\<close>. The slice of a short string is short or
  empty, and \<open>int("", 2)\<close> raises ValueError: \<open>None\<close> is that exception.
\<close>

definition u_bits :: "bits \<Rightarrow> nat \<Rightarrow> nat \<Rightarrow> nat option" where
  "u_bits bs start len =
     (let b = take len (drop start bs) in
      if b = [] then None else Some (bin_val b))"

text \<open>\<open>_s\<close>: guarded against the empty slice; the sign is taken off with \<open>1 << length\<close>.\<close>

definition s_bits :: "bits \<Rightarrow> nat \<Rightarrow> nat \<Rightarrow> int" where
  "s_bits bs start len =
     (let b = take len (drop start bs) in
      if b = [] then 0
      else if hd b then int (bin_val b) - 2 ^ len
      else int (bin_val b))"

text \<open>\<open>range(start, start + length, 6)\<close>\<close>

definition range6 :: "nat \<Rightarrow> nat \<Rightarrow> nat list" where
  "range6 start len = map (\<lambda>k. start + 6 * k) [0 ..< (len + 5) div 6]"

fun sixbit_chars :: "bits \<Rightarrow> nat list \<Rightarrow> string option" where
  "sixbit_chars bs [] = Some []"
| "sixbit_chars bs (i # is) =
     do { val \<leftarrow> u_bits bs i 6;
          let ch = char_of (val + 32);
          let ch = (if ch = CHR ''@'' then CHR '' '' else ch);
          rest \<leftarrow> sixbit_chars bs is;
          Some (ch # rest) }"

definition sixbit_to_ascii :: "bits \<Rightarrow> nat \<Rightarrow> nat \<Rightarrow> string option" where
  "sixbit_to_ascii bs start len =
     do { out \<leftarrow> sixbit_chars bs (range6 start len); Some (strip out) }"

text \<open>
  A decoder returns the pair \<open>(info, None)\<close> or \<open>(None, why)\<close>; an exception raised inside
  it is \<open>None\<close> of the enclosing option.
\<close>

datatype 'a decoded = Info 'a | Why string

record pos_info =
  msgtype :: nat
  mmsi :: nat
  lat :: real
  lon :: real
  sog :: "real option"
  cog :: "real option"
  hdg :: "nat option"

record static_info =
  st_msgtype :: nat
  st_mmsi :: nat
  st_name :: string

definition decode_position :: "bits \<Rightarrow> pos_info decoded option" where
  "decode_position bs =
     (if length bs < 168 then Some (Why ''short'')
      else do {
        mt \<leftarrow> u_bits bs 0 6;
        if mt \<notin> {1, 2, 3, 18, 19} then Some (Why (''type'' @ show_nat mt))
        else do {
          let (lon_off, lat_off, sog_off, cog_off, hdg_off) =
            (if mt \<in> {1, 2, 3} then (61, 89, 50, 116, 128) else (57, 85, 46, 112, 124));
          let lon_raw = s_bits bs lon_off 28;
          let lat_raw = s_bits bs lat_off 27;
          sog10 \<leftarrow> u_bits bs sog_off 10;
          cog10 \<leftarrow> u_bits bs cog_off 12;
          h \<leftarrow> u_bits bs hdg_off 9;
          if \<bar>lon_raw\<bar> \<ge> 108600000 \<or> \<bar>lat_raw\<bar> \<ge> 54600000
          then Some (Why ''invalid_latlon'')
          else do {
            m \<leftarrow> u_bits bs 8 30;
            Some (Info \<lparr> msgtype = mt, mmsi = m,
                         lat = real_of_int lat_raw / 600000,
                         lon = real_of_int lon_raw / 600000,
                         sog = (if sog10 = 1023 then None else Some (real sog10 / 10)),
                         cog = (if cog10 \<ge> 3600 then None else Some (real cog10 / 10)),
                         hdg = (if h = 511 then None else Some h) \<rparr>)
          }
        }
      })"

definition decode_basestation :: "bits \<Rightarrow> pos_info decoded option" where
  "decode_basestation bs =
     (if length bs < 168 then Some (Why ''short'')
      else do {
        mt \<leftarrow> u_bits bs 0 6;
        if mt \<noteq> 4 then Some (Why ''not_type4'')
        else do {
          let lon_raw = s_bits bs 79 28;
          let lat_raw = s_bits bs 107 27;
          if \<bar>lon_raw\<bar> \<ge> 108600000 \<or> \<bar>lat_raw\<bar> \<ge> 54600000
          then Some (Why ''invalid_latlon'')
          else do {
            m \<leftarrow> u_bits bs 8 30;
            Some (Info \<lparr> msgtype = 4, mmsi = m,
                         lat = real_of_int lat_raw / 600000,
                         lon = real_of_int lon_raw / 600000,
                         sog = Some 0, cog = Some 0, hdg = None \<rparr>)
          }
        }
      })"

definition decode_longrange :: "bits \<Rightarrow> pos_info decoded option" where
  "decode_longrange bs =
     (if length bs < 96 then Some (Why ''short'')
      else do {
        mt \<leftarrow> u_bits bs 0 6;
        if mt \<noteq> 27 then Some (Why ''not_type27'')
        else do {
          let lon_raw = s_bits bs 44 18;
          let lat_raw = s_bits bs 62 17;
          if lon_raw = 0x1FFFF \<or> lat_raw = 0x1FFFF
          then Some (Why ''invalid_latlon'')
          else do {
            m \<leftarrow> u_bits bs 8 30;
            Some (Info \<lparr> msgtype = 27, mmsi = m,
                         lat = real_of_int lat_raw / 600,
                         lon = real_of_int lon_raw / 600,
                         sog = None, cog = None, hdg = None \<rparr>)
          }
        }
      })"

definition decode_static :: "bits \<Rightarrow> static_info decoded option" where
  "decode_static bs =
     do {
       mt \<leftarrow> u_bits bs 0 6;
       if mt = 5 then
         (if length bs < 424 then Some (Why ''short5'')
          else do {
            m \<leftarrow> u_bits bs 8 30;
            nm \<leftarrow> sixbit_to_ascii bs 112 120;
            Some (Info \<lparr> st_msgtype = 5, st_mmsi = m, st_name = nm \<rparr>) })
       else if mt = 24 then
         (if length bs < 160 then Some (Why ''short24'')
          else do {
            m \<leftarrow> u_bits bs 8 30;
            part_no \<leftarrow> u_bits bs 38 2;
            if part_no \<in> {0, 1} then do {
              nm \<leftarrow> sixbit_to_ascii bs 40 120;
              Some (Info \<lparr> st_msgtype = 24, st_mmsi = m, st_name = nm \<rparr>) }
            else Some (Why ''partB'') })
       else Some (Why (''not_static'' @ show_nat mt))
     }"

section \<open>Reading integers\<close>

text \<open>
  \<open>int(s)\<close> on a string, base 10: surrounding whitespace is dropped, one sign is allowed,
  then digits, with single underscores between digits. \<open>None\<close> is ValueError. The
  whitespace of \<open>int\<close> is the C set: space, tab, newline, vertical tab, form feed and
  carriage return; the separators \<open>0x1C..0x1F\<close>, which \<open>str.strip\<close> removes, are not
  part of it and make \<open>int\<close> raise.
\<close>

definition is_int_space :: "char \<Rightarrow> bool" where
  "is_int_space c = ((of_char c :: nat) \<in> {9, 10, 11, 12, 13, 32})"

definition int_strip :: "string \<Rightarrow> string" where
  "int_strip s = rev (dropWhile is_int_space (rev (dropWhile is_int_space s)))"

definition is_digit :: "char \<Rightarrow> bool" where
  "is_digit c = (48 \<le> (of_char c :: nat) \<and> (of_char c :: nat) \<le> 57)"

definition digit_val :: "char \<Rightarrow> nat" where
  "digit_val c = of_char c - 48"

fun py_digits_acc :: "nat \<Rightarrow> string \<Rightarrow> nat option" where
  "py_digits_acc acc [] = Some acc"
| "py_digits_acc acc [c] = (if is_digit c then Some (10 * acc + digit_val c) else None)"
| "py_digits_acc acc (c # d # ds) =
     (if is_digit c then py_digits_acc (10 * acc + digit_val c) (d # ds)
      else if c = CHR ''_'' \<and> is_digit d then py_digits_acc (10 * acc + digit_val d) ds
      else None)"

definition py_digits :: "string \<Rightarrow> nat option" where
  "py_digits s =
     (case s of
        [] \<Rightarrow> None
      | c # cs \<Rightarrow> if is_digit c then py_digits_acc (digit_val c) cs else None)"

definition py_int :: "string \<Rightarrow> int option" where
  "py_int s =
     (case int_strip s of
        [] \<Rightarrow> None
      | c # cs \<Rightarrow>
          if c = CHR ''-'' then map_option (\<lambda>n. - int n) (py_digits cs)
          else if c = CHR ''+'' then map_option int (py_digits cs)
          else map_option int (py_digits (c # cs)))"

text \<open>\<open>x or d\<close> on strings: the empty string is falsy.\<close>

definition or_else :: "string \<Rightarrow> string \<Rightarrow> string" where
  "or_else x d = (if x = [] then d else x)"

definition startswith :: "string \<Rightarrow> string \<Rightarrow> bool" where
  "startswith s p = (take (length p) s = p)"

section \<open>AIS frame assembler\<close>

text \<open>
  An entry of \<open>frag_store\<close>. Its \<open>time\<close> field is written once and never read, and is
  left out.
\<close>

record frag_entry =
  total :: int
  payloads :: "int \<rightharpoonup> string"
  fill :: int

type_synonym frag_store = "(string \<times> string) \<rightharpoonup> frag_entry"

text \<open>
  \<open>parse_nmea\<close> returns \<open>((payload, fillbits), None)\<close> or \<open>(None, why)\<close>, and updates the
  global \<open>frag_store\<close>, which is passed in and returned.
\<close>

definition join_payloads :: "(int \<rightharpoonup> string) \<Rightarrow> int \<Rightarrow> string" where
  \<comment> \<open>\<open>"".join(payloads.get(i, "") for i in range(1, total + 1))\<close>\<close>
  "join_payloads ps n = concat (map (\<lambda>i. case ps i of None \<Rightarrow> [] | Some p \<Rightarrow> p) [1 .. n])"

type_synonym nmea_fields = "int \<times> int \<times> string \<times> string \<times> string \<times> int"

text \<open>
  The first half of \<open>parse_nmea\<close>: the fields fragment count, fragment number, sequence
  id, channel, payload and fill bits of a sentence, or the reason of the rejection.
\<close>

definition nmea_fields :: "string \<Rightarrow> nmea_fields decoded" where
  "nmea_fields line =
     (if \<not> (startswith line ''!AIVDM'' \<or> startswith line ''!AIVDO'') then Why ''not_AIVDM''
      else
        let parts = split_on (CHR '','') line in
        if length parts < 7 then Why ''short_line''
        else
          (case (py_int (or_else (parts ! 1) ''1''), py_int (or_else (parts ! 2) ''1'')) of
             (Some fragcount, Some fragnum) \<Rightarrow>
               let seq_id = parts ! 3;
                   channel = parts ! 4;
                   payload = parts ! 5;
                   fb_raw = hd (split_on (CHR ''*'') (parts ! 6));
                   fillbits = (case py_int (or_else fb_raw ''0'') of
                                 Some f \<Rightarrow> f | None \<Rightarrow> 0)
               in Info (fragcount, fragnum, seq_id, channel, payload, fillbits)
           | _ \<Rightarrow> Why ''bad_frag_fields''))"

text \<open>The second half: the single-fragment shortcut and the fragment table.\<close>

definition assemble :: "frag_store \<Rightarrow> nmea_fields \<Rightarrow> (string \<times> int) decoded \<times> frag_store" where
  "assemble store x =
     (case x of (fragcount, fragnum, seq_id, channel, payload, fillbits) \<Rightarrow>
        if fragcount = 1 \<and> fragnum = 1 then (Info (payload, fillbits), store)
        else
          let key = (seq_id, channel);
              entry = (case store key of
                         Some e \<Rightarrow> e
                       | None \<Rightarrow> \<lparr> total = fragcount, payloads = Map.empty,
                                    fill = fillbits \<rparr>);
              entry = entry \<lparr> payloads := (payloads entry)(fragnum \<mapsto> payload),
                              fill := fillbits \<rparr>
          in
          if int (card (dom (payloads entry))) = total entry
          then (Info (join_payloads (payloads entry) (total entry), fill entry),
                store(key := None))
          else (Why ''waiting_frag'', store(key \<mapsto> entry)))"

definition parse_nmea :: "frag_store \<Rightarrow> string \<Rightarrow> (string \<times> int) decoded \<times> frag_store" where
  "parse_nmea store line =
     (case nmea_fields line of
        Why why \<Rightarrow> (Why why, store)
      | Info x \<Rightarrow> assemble store x)"

text \<open>The assembler over a sequence of input lines, in order, with its results.\<close>

fun run_nmea :: "frag_store \<Rightarrow> string list \<Rightarrow> (string \<times> int) decoded list" where
  "run_nmea store [] = []"
| "run_nmea store (l # ls) =
     (case parse_nmea store l of (r, store') \<Rightarrow> r # run_nmea store' ls)"

text \<open>
  The reassembly as the specification words it, to compare \<open>parse_nmea\<close> with: the
  fragments \<open>(number, payload)\<close> of one key are collected in arrival order; once every
  number \<open>1..N\<close> has arrived, the result is the concatenation of the payloads in ascending
  fragment number (the latest payload of a number received twice) with the fill-bit count
  of the fragment just seen, and the collection starts afresh; until then the result is
  the waiting indication.
\<close>

definition all_arrived :: "int \<Rightarrow> (int \<times> string) list \<Rightarrow> bool" where
  "all_arrived N pend = list_all (\<lambda>i. i \<in> fst ` set pend) [1 .. N]"

definition latest :: "(int \<times> string) list \<Rightarrow> int \<Rightarrow> string" where
  "latest pend i = (case map_of (rev pend) i of None \<Rightarrow> [] | Some p \<Rightarrow> p)"

fun spec_reassemble ::
  "int \<Rightarrow> (int \<times> string) list \<Rightarrow> (int \<times> string \<times> int) list \<Rightarrow> (string \<times> int) decoded list" where
  "spec_reassemble N pend [] = []"
| "spec_reassemble N pend ((k, p, f) # rest) =
     (let pend' = pend @ [(k, p)] in
      if all_arrived N pend'
      then Info (concat (map (latest pend') [1 .. N]), f) # spec_reassemble N [] rest
      else Why ''waiting_frag'' # spec_reassemble N pend' rest)"

section \<open>Geometry and the APRS object\<close>

text \<open>
  The great-circle distance on finite numbers, taken as reals: rounding is outside the
  model. \<open>atan2\<close> is \<open>math.atan2\<close>. The AIS decoders only produce finite numbers.
\<close>

definition radians :: "real \<Rightarrow> real" where
  "radians x = x * pi / 180"

definition atan2 :: "real \<Rightarrow> real \<Rightarrow> real" where
  "atan2 y x =
     (if 0 < x then arctan (y / x)
      else if x < 0 then (if 0 \<le> y then arctan (y / x) + pi else arctan (y / x) - pi)
      else if 0 < y then pi / 2
      else if y < 0 then - pi / 2
      else 0)"

definition haversine :: "real \<Rightarrow> real \<Rightarrow> real \<Rightarrow> real \<Rightarrow> real \<Rightarrow> real" where
  "haversine R lat1 lon1 lat2 lon2 =
     (let p1 = radians lat1; p2 = radians lat2;
          dphi = radians (lat2 - lat1);
          dlmb = radians (lon2 - lon1);
          a = (sin (dphi / 2))\<^sup>2 + cos p1 * cos p2 * (sin (dlmb / 2))\<^sup>2
      in R * 2 * atan2 (sqrt a) (sqrt (1 - a)))"


definition haversine_nm :: "real \<Rightarrow> real \<Rightarrow> real \<Rightarrow> real \<Rightarrow> real" where
  "haversine_nm = haversine 3440.1"

text \<open>
  The ADS-B fields are read by \<open>float\<close>, which also accepts \<open>inf\<close>, \<open>-inf\<close> and \<open>nan\<close>. A
  Python float is a finite number, taken as a real (rounding is outside the model), one
  of the two infinities, or NaN. Every comparison with NaN is false.
\<close>

datatype pyfl = Fin real | PInf | NInf | NaN

definition is_inf :: "pyfl \<Rightarrow> bool" where
  "is_inf x = (x = PInf \<or> x = NInf)"

fun is_fin :: "pyfl \<Rightarrow> bool" where
  "is_fin (Fin a) = True"
| "is_fin PInf = False"
| "is_fin NInf = False"
| "is_fin NaN = False"

fun val :: "pyfl \<Rightarrow> real" where
  \<comment> \<open>the number of a finite float\<close>
  "val (Fin a) = a"
| "val PInf = 0"
| "val NInf = 0"
| "val NaN = 0"

fun f_sub :: "pyfl \<Rightarrow> pyfl \<Rightarrow> pyfl" where
  \<comment> \<open>\<open>a - b\<close>\<close>
  "f_sub (Fin a) (Fin b) = Fin (a - b)"
| "f_sub (Fin a) PInf = NInf"
| "f_sub (Fin a) NInf = PInf"
| "f_sub (Fin a) NaN = NaN"
| "f_sub PInf (Fin b) = PInf"
| "f_sub PInf PInf = NaN"
| "f_sub PInf NInf = PInf"
| "f_sub PInf NaN = NaN"
| "f_sub NInf (Fin b) = NInf"
| "f_sub NInf PInf = NInf"
| "f_sub NInf NInf = NaN"
| "f_sub NInf NaN = NaN"
| "f_sub NaN b = NaN"

fun f_abs :: "pyfl \<Rightarrow> pyfl" where
  \<comment> \<open>\<open>abs(a)\<close>\<close>
  "f_abs (Fin a) = Fin \<bar>a\<bar>"
| "f_abs PInf = PInf"
| "f_abs NInf = PInf"
| "f_abs NaN = NaN"

text \<open>The comparisons of a float with a finite constant: \<open>x >= c\<close>, \<open>x > c\<close>, \<open>x <= c\<close>.\<close>

fun f_ge :: "pyfl \<Rightarrow> real \<Rightarrow> bool" where
  "f_ge (Fin a) c = (a \<ge> c)"
| "f_ge PInf c = True"
| "f_ge NInf c = False"
| "f_ge NaN c = False"

fun f_gt :: "pyfl \<Rightarrow> real \<Rightarrow> bool" where
  "f_gt (Fin a) c = (a > c)"
| "f_gt PInf c = True"
| "f_gt NInf c = False"
| "f_gt NaN c = False"

fun f_le :: "pyfl \<Rightarrow> real \<Rightarrow> bool" where
  "f_le (Fin a) c = (a \<le> c)"
| "f_le PInf c = False"
| "f_le NInf c = True"
| "f_le NaN c = False"

text \<open>\<open>int(x)\<close> on a float truncates towards zero; it raises on NaN and on an infinity.\<close>

definition py_trunc :: "real \<Rightarrow> int" where
  "py_trunc x = (if 0 \<le> x then \<lfloor>x\<rfloor> else \<lceil>x\<rceil>)"

fun f_int :: "pyfl \<Rightarrow> int option" where
  "f_int (Fin a) = Some (py_trunc a)"
| "f_int PInf = None"
| "f_int NInf = None"
| "f_int NaN = None"

text \<open>
  \<open>haversine_miles\<close> on floats. \<open>math.sin\<close> and \<open>math.cos\<close> raise ValueError on an infinity
  (\<open>None\<close>) and return NaN on NaN, as do \<open>math.sqrt\<close> and \<open>math.atan2\<close>; so the call raises
  when a latitude is infinite or the difference of the longitudes is, and otherwise is NaN
  as soon as one operand is not finite.
\<close>

definition haversine_py :: "real \<Rightarrow> pyfl \<Rightarrow> pyfl \<Rightarrow> pyfl \<Rightarrow> pyfl \<Rightarrow> pyfl option" where
  "haversine_py R lat1 lon1 lat2 lon2 =
     (let dphi = f_sub lat2 lat1;
          dlmb = f_sub lon2 lon1
      in
      if is_inf dphi \<or> is_inf lat1 \<or> is_inf lat2 \<or> is_inf dlmb then None
      else if is_fin lat1 \<and> is_fin lon1 \<and> is_fin lat2 \<and> is_fin lon2
      then Some (Fin (haversine R (val lat1) (val lon1) (val lat2) (val lon2)))
      else Some NaN)"

definition haversine_miles_py :: "pyfl \<Rightarrow> pyfl \<Rightarrow> pyfl \<Rightarrow> pyfl \<Rightarrow> pyfl option" where
  "haversine_miles_py = haversine_py 3958.8"

text \<open>
  \<open>dm_lat\<close> and \<open>dm_lon\<close> format degrees and minutes from \<open>int(abs(x))\<close>, which raises unless
  \<open>x\<close> is finite; the model keeps the number they format.
\<close>

definition dm_lat :: "pyfl \<Rightarrow> real option" where
  "dm_lat x = (if is_fin x then Some (val x) else None)"

definition dm_lon :: "pyfl \<Rightarrow> real option" where
  "dm_lon x = (if is_fin x then Some (val x) else None)"

text \<open>
  An APRS object line \<open>;NAME*HHMMSSz<lat><table><lon><code><comment>\<close>, kept by field.
  The position fields keep the numbers that \<open>dm_lat\<close> and \<open>dm_lon\<close> format; the
  timestamp is the clock's \<open>HHMMSS\<close> string followed by \<open>z\<close>.
\<close>

record aprs_object =
  ob_name :: string
  ob_ts :: string
  ob_lat :: real
  ob_lon :: real
  ob_table :: char
  ob_code :: char
  ob_comment :: string

fun join :: "string \<Rightarrow> string list \<Rightarrow> string" where
  "join sep [] = []"
| "join sep [x] = x"
| "join sep (x # y # ys) = x @ sep @ join sep (y # ys)"

definition aprs_symbol_for :: "pos_info \<Rightarrow> char \<times> char" where
  "aprs_symbol_for info =
     (let t = msgtype info in
      if t = 4 then (CHR ''/'', CHR ''r'')
      else if t = 27 then (CHR ''/'', CHR ''s'')
      else if t \<in> {1, 2, 3, 18, 19} then (CHR ''/'', CHR ''s'')
      else (CHR ''/'', CHR ''s''))"

text \<open>\<open>int(x or 0)\<close> on an optional non-negative float.\<close>

definition int_or_0 :: "real option \<Rightarrow> nat" where
  "int_or_0 x = (case x of None \<Rightarrow> 0 | Some v \<Rightarrow> nat \<lfloor>v\<rfloor>)"

definition make_ais_aprs_object ::
  "string \<Rightarrow> pos_info \<Rightarrow> string option \<Rightarrow> aprs_object \<times> string \<times> char \<times> char" where
  "make_ais_aprs_object hhmmss info vessel_name =
     (let mmsi_str = zero_pad 9 (mmsi info);
          obj_name = mmsi_str;
          ts = hhmmss @ ''z'';
          (table, code) = aprs_symbol_for info;
          sog_i = int_or_0 (sog info);
          cog_i = int_or_0 (cog info);
          comment_parts =
            (case vessel_name of
               None \<Rightarrow> []
             | Some vn \<Rightarrow> if vn = [] then [] else [''NAME '' @ vn])
            @ [''SOG '' @ show_nat sog_i @ ''kt'']
            @ [''COG '' @ zero_pad 3 cog_i]
            @ (case hdg info of None \<Rightarrow> [] | Some h \<Rightarrow> [''HDG '' @ show_nat h])
            @ [''MMSI '' @ mmsi_str];
          pkt = \<lparr> ob_name = ljust 9 obj_name, ob_ts = ts,
                  ob_lat = lat info, ob_lon = lon info,
                  ob_table = table, ob_code = code,
                  ob_comment = join '' '' comment_parts \<rparr>
      in (pkt, obj_name, table, code))"

section \<open>AIS track manager\<close>

definition CENTER_LAT :: real where "CENTER_LAT = 42.9"
definition CENTER_LON :: real where "CENTER_LON = - 78.9"
definition MAX_RANGE_NM :: real where "MAX_RANGE_NM = 250"
definition TELEPORT_MOVE_NM :: real where "TELEPORT_MOVE_NM = 150"
definition TELEPORT_TIME_SEC :: int where "TELEPORT_TIME_SEC = 900"
definition MAX_PKTS_PER_SEC :: nat where "MAX_PKTS_PER_SEC = 5"

record good_fix =
  gf_lat :: real
  gf_lon :: real
  gf_time :: int

text \<open>A row of the monitor table \<open>vessels\<close>; its display-only columns are left out.\<close>

record vessel =
  v_name :: string
  v_lat :: real
  v_lon :: real
  v_type :: nat

record ais_state =
  frag_store :: frag_store
  name_cache :: "nat \<rightharpoonup> string"
  vessels :: "nat \<rightharpoonup> vessel"
  last_good :: "nat \<rightharpoonup> good_fix"
  ais_last_sec :: int
  ais_sent_this_sec :: nat

text \<open>
  What one input line makes the worker do on the APRS connection: send a line, fail to
  send one (the connection is reopened), or reach the worker's \<open>except Exception\<close>
  handler, which closes and reopens the connection.
\<close>

datatype ais_event = Sent int aprs_object | SendFailed | HandlerReconnect

text \<open>\<open>bits[:-fill]\<close> for a non-zero \<open>fill\<close>.\<close>

definition drop_fill :: "int \<Rightarrow> bits \<Rightarrow> bits" where
  "drop_fill f bs =
     (if 0 < f then take (length bs - nat f) bs else take (nat (- f)) bs)"

definition decode_any :: "bits \<Rightarrow> pos_info decoded option" where
  "decode_any bs =
     do {
       r \<leftarrow> decode_position bs;
       case r of
         Info i \<Rightarrow> Some (Info i)
       | Why _ \<Rightarrow> do {
           r \<leftarrow> decode_basestation bs;
           case r of
             Info i \<Rightarrow> Some (Info i)
           | Why _ \<Rightarrow> decode_longrange bs }
     }"

definition ais_manage ::
  "ais_state \<Rightarrow> pos_info \<Rightarrow> int \<Rightarrow> string \<Rightarrow> bool \<Rightarrow> ais_state \<times> ais_event list" where
  "ais_manage s info now hhmmss send_ok =
     (if \<bar>lat info\<bar> < 0.001 \<and> \<bar>lon info\<bar> < 0.001 then (s, [])
      else if haversine_nm CENTER_LAT CENTER_LON (lat info) (lon info) > MAX_RANGE_NM
      then (s, [])
      else if (case last_good s (mmsi info) of
                 None \<Rightarrow> False
               | Some prev \<Rightarrow>
                   now - gf_time prev < TELEPORT_TIME_SEC \<and>
                   haversine_nm (gf_lat prev) (gf_lon prev) (lat info) (lon info)
                     > TELEPORT_MOVE_NM)
      then (s, [])
      else
        let s = (if now \<noteq> ais_last_sec s
                 then s \<lparr> ais_last_sec := now, ais_sent_this_sec := 0 \<rparr> else s)
        in
        if ais_sent_this_sec s \<ge> MAX_PKTS_PER_SEC then (s, [])
        else
          let s = s \<lparr> ais_sent_this_sec := ais_sent_this_sec s + 1 \<rparr>;
              vname = name_cache s (mmsi info);
              (pkt, obj_name, table, code) = make_ais_aprs_object hhmmss info vname
          in
          if \<not> send_ok then (s, [SendFailed])
          else
            let display_name =
                  (case vname of
                     None \<Rightarrow> zero_pad 9 (mmsi info)
                   | Some vn \<Rightarrow> if vn = [] then zero_pad 9 (mmsi info) else vn)
            in
            (s \<lparr> last_good := (last_good s)(mmsi info \<mapsto>
                     \<lparr> gf_lat = lat info, gf_lon = lon info, gf_time = now \<rparr>),
                  vessels := (vessels s)(mmsi info \<mapsto>
                     \<lparr> v_name = display_name, v_lat = lat info, v_lon = lon info,
                       v_type = msgtype info \<rparr>) \<rparr>,
             [Sent now pkt]))"

text \<open>
  One iteration of the \<open>for line in accept_ais()\<close> loop: \<open>now\<close> and \<open>hhmmss\<close> are the clock
  readings of the iteration, \<open>send_ok\<close> tells whether \<open>aprs.send\<close> returns.
\<close>

definition ais_line ::
  "ais_state \<Rightarrow> string \<Rightarrow> int \<Rightarrow> string \<Rightarrow> bool \<Rightarrow> ais_state \<times> ais_event list" where
  "ais_line s line now hhmmss send_ok =
     (case parse_nmea (frag_store s) line of
        (Why perr, fs) \<Rightarrow> (s \<lparr> frag_store := fs \<rparr>, [])
      | (Info (payload, fillb), fs) \<Rightarrow>
          let s = s \<lparr> frag_store := fs \<rparr>;
              bs = sixbit_unpack payload;
              bs = (if fillb \<noteq> 0 then drop_fill fillb bs else bs)
          in
          (case decode_static bs of
             None \<Rightarrow> (s, [HandlerReconnect])
           | Some (Info st) \<Rightarrow>
               let nm = strip (st_name st) in
               if nm = [] then (s, [])
               else
                 (s \<lparr> name_cache := (name_cache s)(st_mmsi st \<mapsto> nm),
                       vessels := (case vessels s (st_mmsi st) of
                                     None \<Rightarrow> vessels s
                                   | Some v \<Rightarrow> (vessels s)(st_mmsi st \<mapsto> v \<lparr> v_name := nm \<rparr>)) \<rparr>,
                  [])
           | Some (Why swhy) \<Rightarrow>
               (case decode_any bs of
                  None \<Rightarrow> (s, [HandlerReconnect])
                | Some (Why why) \<Rightarrow> (s, [])
                | Some (Info info) \<Rightarrow> ais_manage s info now hhmmss send_ok)))"

definition ais_init :: ais_state where
  "ais_init = \<lparr> frag_store = Map.empty, name_cache = Map.empty, vessels = Map.empty,
                last_good = Map.empty, ais_last_sec = 0, ais_sent_this_sec = 0 \<rparr>"

section \<open>ADS-B: names, symbols and SBS lines\<close>

definition MIN_UPDATE_SEC :: int where "MIN_UPDATE_SEC = 5"
definition MIN_MOVE_MI :: real where "MIN_MOVE_MI = 0.50"
definition OBJECT_TTL_SEC :: int where "OBJECT_TTL_SEC = 300"
definition LANDED_ALT_FT :: real where "LANDED_ALT_FT = 1000"
definition LANDED_WAIT_SEC :: int where "LANDED_WAIT_SEC = 180"
definition LAND_CLEAR_ALT :: real where "LAND_CLEAR_ALT = 1500"
definition EPS_LATLON_DEG :: real where "EPS_LATLON_DEG = 0.00015"
definition EPS_ALT_FT :: real where "EPS_ALT_FT = 25"
definition EPS_TRK_DEG :: int where "EPS_TRK_DEG = 3"
definition EPS_GS_KT :: real where "EPS_GS_KT = 2"
definition KBUF_LAT :: real where "KBUF_LAT = 42.9405"
definition KBUF_LON :: real where "KBUF_LON = - 78.7322"
definition ADD_DISTANCE_MI :: real where "ADD_DISTANCE_MI = 35"
definition CLEAR_DISTANCE_MI :: real where "CLEAR_DISTANCE_MI = 40"

text \<open>\<open>str.upper\<close> on ASCII letters.\<close>

definition upper_char :: "char \<Rightarrow> char" where
  "upper_char c =
     (case map_of (zip ''abcdefghijklmnopqrstuvwxyz'' ''ABCDEFGHIJKLMNOPQRSTUVWXYZ'') c of
        None \<Rightarrow> c
      | Some u \<Rightarrow> u)"

definition upper :: "string \<Rightarrow> string" where
  "upper s = map upper_char s"

definition is_AZ09 :: "char \<Rightarrow> bool" where
  \<comment> \<open>the complement of \<open>_name_cleaner = re.compile(r"[^A-Z0-9]")\<close>\<close>
  "is_AZ09 c =
     (let i = (of_char c :: nat) in (65 \<le> i \<and> i \<le> 90) \<or> (48 \<le> i \<and> i \<le> 57))"

definition normalize_callsign :: "string option \<Rightarrow> string option" where
  "normalize_callsign cs =
     (case cs of
        None \<Rightarrow> None
      | Some c \<Rightarrow>
          if c = [] then None
          else let n = filter is_AZ09 (upper c) in if n = [] then None else Some n)"

definition name_from_callsign_or_hex :: "string option \<Rightarrow> string option \<Rightarrow> string" where
  "name_from_callsign_or_hex callsign icao_hex =
     (case normalize_callsign callsign of
        Some n \<Rightarrow> ljust 9 (take 9 n)
      | None \<Rightarrow>
          ljust 9 (take 9 (case icao_hex of
                             None \<Rightarrow> ''AIRCRAFT''
                           | Some h \<Rightarrow> if h = [] then ''AIRCRAFT'' else h)))"

fun is_infix :: "string \<Rightarrow> string \<Rightarrow> bool" where
  \<comment> \<open>\<open>p in s\<close>\<close>
  "is_infix p [] = (p = [])"
| "is_infix p (c # cs) = (startswith (c # cs) p \<or> is_infix p cs)"

definition startswith_any :: "string \<Rightarrow> string list \<Rightarrow> bool" where
  "startswith_any s ps = list_ex (startswith s) ps"

definition symbol_for_category ::
  "string option \<Rightarrow> string option \<Rightarrow> char \<times> char \<times> string" where
  "symbol_for_category emitter_cat ac_type =
     (let PLANE = (CHR ''/'', CHR ''^'', ''PLANE'');
          HELI = (CHR ''/'', CHR ''X'', ''HELI'');
          BALLOON = (CHR ''/'', CHR ''O'', ''BALLOON'');
          GLIDER = (CHR ''/'', CHR ''g'', ''GLIDER'');
          ec = (case emitter_cat of None \<Rightarrow> [] | Some c \<Rightarrow> c)
      in
      if ec \<noteq> [] then
        (let cat = strip (upper ec) in
         if cat = ''A7'' then HELI
         else if cat = ''B2'' then BALLOON
         else if cat = ''B1'' \<or> cat = ''B4'' then GLIDER
         else PLANE)
      else
        (let t = upper (case ac_type of None \<Rightarrow> [] | Some a \<Rightarrow> a) in
         if t \<noteq> [] \<and>
            (startswith t ''H'' \<or> is_infix ''HELI'' t \<or>
             startswith_any t [''EC'', ''UH'', ''AH'', ''CH'', ''MH'', ''R22'', ''R44'',
                               ''BELL'', ''BK''])
         then HELI
         else if t \<noteq> [] \<and>
            (is_infix ''GLID'' t \<or>
             startswith_any t [''DG'', ''ASW'', ''ASK'', ''LS'', ''G1'', ''G2'', ''G3''])
         then GLIDER
         else if t \<noteq> [] \<and>
            (is_infix ''BAL'' t \<or> is_infix ''BLN'' t \<or> is_infix ''BALLOON'' t \<or>
             is_infix ''HAB'' t)
         then BALLOON
         else PLANE))"

text \<open>A record of \<open>parse_sbs\<close>: the dictionary with the keys icao, callsign, lat, lon, trk, gs, alt.\<close>

record sbs_msg =
  m_icao :: "string option"
  m_callsign :: "string option"
  m_lat :: pyfl
  m_lon :: pyfl
  m_trk :: "pyfl option"
  m_gs :: "pyfl option"
  m_alt :: "pyfl option"

text \<open>
  \<open>float(x) if x else None\<close> inside \<open>try\<close>/\<open>except\<close>: the empty field and the unreadable
  field both give \<open>None\<close>. The reader \<open>float\<close> itself is a parameter \<open>pyfloat\<close>
  (\<open>None\<close> where it raises).
\<close>

definition float_field :: "(string \<Rightarrow> pyfl option) \<Rightarrow> string \<Rightarrow> pyfl option" where
  "float_field pyfloat x = (if x = [] then None else pyfloat x)"

definition parse_sbs_fields :: "(string \<Rightarrow> pyfl option) \<Rightarrow> string list \<Rightarrow> sbs_msg option" where
  "parse_sbs_fields pyfloat f =
     (if length f < 22 \<or> f ! 0 \<noteq> ''MSG'' then None
      else
        (case py_int (f ! 1) of
           None \<Rightarrow> None
         | Some subtype \<Rightarrow>
             if subtype \<notin> {3, 4} then None
             else
               let icao = (if f ! 4 = [] then None else Some (upper (strip (f ! 4))));
                   callsign = (if length f > 10 \<and> strip (f ! 10) \<noteq> []
                               then Some (strip (f ! 10)) else None);
                   lat = float_field pyfloat (f ! 14);
                   lon = float_field pyfloat (f ! 15);
                   alt = float_field pyfloat (f ! 11);
                   gs = float_field pyfloat (f ! 12);
                   trk = float_field pyfloat (f ! 13)
               in
               (case (lat, lon) of
                  (Some la, Some lo) \<Rightarrow>
                    Some \<lparr> m_icao = icao, m_callsign = callsign, m_lat = la, m_lon = lo,
                           m_trk = trk, m_gs = gs, m_alt = alt \<rparr>
                | _ \<Rightarrow> None)))"

definition parse_sbs :: "(string \<Rightarrow> pyfl option) \<Rightarrow> string \<Rightarrow> sbs_msg option" where
  "parse_sbs pyfloat line = parse_sbs_fields pyfloat (split_on (CHR '','') (strip line))"

text \<open>
  The values of \<open>float\<close> on the fields of the example lines below: two decimal literals,
  \<open>nan\<close>, and \<open>None\<close> (ValueError) on every other field. It stands for \<open>pyfloat\<close> in
  examples only.
\<close>

definition example_float :: "string \<Rightarrow> pyfl option" where
  "example_float x =
     (if x = ''42.95'' then Some (Fin 42.95)
      else if x = ''-78.70'' then Some (Fin (- 78.70))
      else if x = ''nan'' then Some NaN
      else None)"

definition show_int :: "int \<Rightarrow> string" where
  "show_int i = (if i < 0 then CHR ''-'' # show_nat (nat (- i)) else show_nat (nat i))"

text \<open>
  An optional comment part built from \<open>int(x)\<close>: absent when \<open>x\<close> is \<open>None\<close>; \<open>None\<close> where
  \<open>int\<close> raises.
\<close>

definition int_part :: "(int \<Rightarrow> string) \<Rightarrow> pyfl option \<Rightarrow> string list option" where
  "int_part fmt x =
     (case x of None \<Rightarrow> Some [] | Some v \<Rightarrow> map_option (\<lambda>i. [fmt i]) (f_int v))"

text \<open>\<open>make_adsb_aprs_object\<close>; \<open>None\<close> where it raises (a position, track, speed or altitude that is not finite).\<close>

definition make_adsb_aprs_object ::
  "string \<Rightarrow> string \<Rightarrow> pyfl \<Rightarrow> pyfl \<Rightarrow> char \<Rightarrow> char \<Rightarrow> pyfl option \<Rightarrow> pyfl option \<Rightarrow>
   pyfl option \<Rightarrow> string option \<Rightarrow> string option \<Rightarrow> string option \<Rightarrow> bool \<Rightarrow>
   aprs_object option" where
  "make_adsb_aprs_object hhmmss name la lo tb cd trk gs alt icao callsign sym_tag delete =
     do {
       let ts = hhmmss @ ''z'';
       lat_s \<leftarrow> dm_lat la;
       lon_s \<leftarrow> dm_lon lo;
       p_trk \<leftarrow> int_part (\<lambda>i. ''TRK '' @ zero_pad 3 (nat (i mod 360))) trk;
       p_gs \<leftarrow> int_part (\<lambda>i. ''GS '' @ show_int i @ ''kt'') gs;
       p_alt \<leftarrow> int_part (\<lambda>i. ''ALT '' @ show_int i @ ''ft'') alt;
       let parts =
            p_trk @ p_gs @ p_alt
            @ (case normalize_callsign callsign of None \<Rightarrow> [] | Some cs \<Rightarrow> [''FLT '' @ cs])
            @ (case icao of None \<Rightarrow> [] | Some i \<Rightarrow> if i = [] then [] else [''ICAO '' @ i])
            @ (case sym_tag of None \<Rightarrow> [] | Some t \<Rightarrow> if t = [] then [] else [''SYM '' @ t])
            @ (if delete then [''DEL''] else []);
       let comment = (if parts = [] then ''ADS-B'' else join '' '' parts);
       Some \<lparr> ob_name = name, ob_ts = ts, ob_lat = lat_s, ob_lon = lon_s,
              ob_table = tb, ob_code = cd, ob_comment = comment \<rparr>
     }"

section \<open>ADS-B track manager\<close>

text \<open>An entry of \<open>meta_cache\<close>: the keys cat, type, flight of the JSON poller.\<close>

record meta =
  cat :: "string option"
  ac_type :: "string option"
  flight :: "string option"

type_synonym meta_cache = "string \<rightharpoonup> meta"

definition no_meta :: meta where
  "no_meta = \<lparr> cat = None, ac_type = None, flight = None \<rparr>"

record sent_info =
  si_time :: int
  si_state :: sbs_msg
  si_lat :: pyfl
  si_lon :: pyfl
  si_icao :: string

text \<open>
  The worker's tables. \<open>last_seen\<close> is the one dictionary the worker iterates over, so it
  keeps its insertion order as an association list; the others are maps. The monitor
  table \<open>aircraft\<close> is display-only and left out.
\<close>

record adsb_state =
  last_seen :: "(string \<times> int) list"
  last_sent :: "string \<rightharpoonup> sent_info"
  low_alt_since :: "string \<rightharpoonup> int"
  landed_block :: "string set"
  hex_to_name :: "string \<rightharpoonup> string"
  name_to_hex :: "string \<rightharpoonup> string"
  last_sec :: int
  sent_this_sec :: nat

definition adsb_init :: adsb_state where
  "adsb_init = \<lparr> last_seen = [], last_sent = Map.empty, low_alt_since = Map.empty,
                 landed_block = {}, hex_to_name = Map.empty, name_to_hex = Map.empty,
                 last_sec = 0, sent_this_sec = 0 \<rparr>"

text \<open>
  What the worker does on its connections: a delete line or a position line sent at
  clock second \<open>now\<close>; a position line whose \<open>aprs.send\<close> raised (the APRS connection is
  reopened); an exception that reaches the handler of the main loop (the record is
  abandoned, the worker sleeps and reopens the SBS connection). A delete line whose
  construction or send raises is dropped silently (\<open>except: pass\<close>).
\<close>

datatype adsb_event = Del int aprs_object | Pos int aprs_object | PosFailed | WorkerError

definition seen :: "adsb_state \<Rightarrow> string \<Rightarrow> bool" where
  \<comment> \<open>\<open>name in last_seen\<close>\<close>
  "seen s n = (map_of (last_seen s) n \<noteq> None)"

text \<open>
  The values derived from a record before any table is touched. \<open>dist_kbuf\<close> is \<open>None\<close>
  where \<open>haversine_miles\<close> raises.
\<close>

record rec_ctx =
  icao_hex :: string
  callsign :: "string option"
  desired_name :: string
  table :: char
  code :: char
  sym_tag :: string
  dist_kbuf :: "pyfl option"
  current_name_for_hex :: "string option"
  tracked_name :: string

definition record_ctx :: "meta_cache \<Rightarrow> adsb_state \<Rightarrow> sbs_msg \<Rightarrow> rec_ctx" where
  "record_ctx mc s msg =
     (let ih = upper (case m_icao msg of None \<Rightarrow> [] | Some i \<Rightarrow> i);
          mt = (case mc ih of None \<Rightarrow> no_meta | Some m \<Rightarrow> m);
          json_callsign = flight mt;
          cs = (case m_callsign msg of
                  None \<Rightarrow> json_callsign
                | Some c \<Rightarrow> if c = [] then json_callsign else Some c);
          dn = name_from_callsign_or_hex cs (Some ih);
          (tb, cd, tg) = symbol_for_category (cat mt) (ac_type mt);
          \<comment> \<open>\<open>hex_to_name.get(icao_hex)\<close>, with the empty name falsy\<close>
          cur = (case hex_to_name s ih of
                   None \<Rightarrow> None
                 | Some n \<Rightarrow> if n = [] then None else Some n)
      in \<lparr> icao_hex = ih, callsign = cs, desired_name = dn, table = tb, code = cd,
           sym_tag = tg,
           dist_kbuf = haversine_miles_py (Fin KBUF_LAT) (Fin KBUF_LON) (m_lat msg) (m_lon msg),
           current_name_for_hex = cur,
           tracked_name = (case cur of None \<Rightarrow> dn | Some n \<Rightarrow> n) \<rparr>)"

text \<open>
  The delete line for \<open>name\<close>: at its last-sent position, or at the record's if none. No
  line goes out when the object cannot be built or the send raises.
\<close>

definition delete_event ::
  "adsb_state \<Rightarrow> rec_ctx \<Rightarrow> sbs_msg \<Rightarrow> string \<Rightarrow> int \<Rightarrow> string \<Rightarrow> bool \<Rightarrow> adsb_event list" where
  "delete_event s c msg name now hhmmss send_ok =
     (let (la, lo) = (case last_sent s name of
                        None \<Rightarrow> (m_lat msg, m_lon msg)
                      | Some li \<Rightarrow> (si_lat li, si_lon li))
      in case make_adsb_aprs_object hhmmss name la lo (table c) (code c)
                None None None None None (Some (sym_tag c)) True of
           None \<Rightarrow> []
         | Some delpkt \<Rightarrow> if send_ok then [Del now delpkt] else [])"

definition range_clear ::
  "adsb_state \<Rightarrow> rec_ctx \<Rightarrow> sbs_msg \<Rightarrow> int \<Rightarrow> string \<Rightarrow> bool \<Rightarrow> adsb_state \<times> adsb_event list" where
  "range_clear s c msg now hhmmss send_ok =
     (let tn = tracked_name c in
      (s \<lparr> last_seen := AList.delete tn (last_seen s),
            last_sent := (last_sent s)(tn := None),
            low_alt_since := (low_alt_since s)(tn := None),
            landed_block := landed_block s - {tn},
            hex_to_name := (if current_name_for_hex c \<noteq> None
                            then (hex_to_name s)(icao_hex c := None) else hex_to_name s),
            name_to_hex := (name_to_hex s)(tn := None) \<rparr>,
       delete_event s c msg tn now hhmmss send_ok))"

definition dwell_delete ::
  "adsb_state \<Rightarrow> rec_ctx \<Rightarrow> sbs_msg \<Rightarrow> int \<Rightarrow> string \<Rightarrow> bool \<Rightarrow> adsb_state \<times> adsb_event list" where
  "dwell_delete s c msg now hhmmss send_ok =
     (let tn = tracked_name c in
      (s \<lparr> last_seen := AList.delete tn (last_seen s),
            last_sent := (last_sent s)(tn := None),
            landed_block := insert tn (landed_block s),
            hex_to_name := (if current_name_for_hex c \<noteq> None
                            then (hex_to_name s)(icao_hex c := None) else hex_to_name s),
            name_to_hex := (name_to_hex s)(tn := None) \<rparr>,
       delete_event s c msg tn now hhmmss send_ok))"

text \<open>\<open>int(x) % 360\<close>; \<open>None\<close> where \<open>int\<close> raises.\<close>

definition trk360 :: "pyfl \<Rightarrow> int option" where
  "trk360 x = map_option (\<lambda>i. i mod 360) (f_int x)"

text \<open>The track test of \<open>state_changed\<close>, on two known tracks.\<close>

definition trk_changed :: "pyfl \<Rightarrow> pyfl \<Rightarrow> bool option" where
  "trk_changed x y =
     do {
       a \<leftarrow> trk360 x;
       b \<leftarrow> trk360 y;
       let d = \<bar>a - b\<bar>;
       let d = min d (360 - d);
       Some (d \<ge> EPS_TRK_DEG)
     }"

text \<open>\<open>state_changed\<close>; \<open>None\<close> where it raises, which only \<open>int\<close> on a track can do.\<close>

definition state_changed :: "sbs_msg option \<Rightarrow> sbs_msg \<Rightarrow> bool option" where
  "state_changed prev cur =
     (case prev of
        None \<Rightarrow> Some True
      | Some p \<Rightarrow>
          if f_ge (f_abs (f_sub (m_lat cur) (m_lat p))) EPS_LATLON_DEG then Some True
          else if f_ge (f_abs (f_sub (m_lon cur) (m_lon p))) EPS_LATLON_DEG then Some True
          else if (m_alt cur = None) \<noteq> (m_alt p = None) then Some True
          else if (case (m_alt cur, m_alt p) of
                     (Some a, Some b) \<Rightarrow> f_ge (f_abs (f_sub a b)) EPS_ALT_FT
                   | _ \<Rightarrow> False) then Some True
          else if (m_trk cur = None) \<noteq> (m_trk p = None) then Some True
          else
            (case (case (m_trk cur, m_trk p) of
                     (Some x, Some y) \<Rightarrow> trk_changed x y
                   | _ \<Rightarrow> Some False) of
               None \<Rightarrow> None
             | Some t \<Rightarrow>
                 if t then Some True
                 else if (m_gs cur = None) \<noteq> (m_gs p = None) then Some True
                 else if (case (m_gs cur, m_gs p) of
                            (Some a, Some b) \<Rightarrow> f_ge (f_abs (f_sub a b)) EPS_GS_KT
                          | _ \<Rightarrow> False) then Some True
                 else Some False))"

text \<open>
  The emission decision; \<open>None\<close> where it raises. \<open>moved_far_enough\<close> is computed, and can
  raise, before the three tests; \<open>state_changed\<close> is called before the elapsed time is
  looked at.
\<close>

definition need_send :: "sent_info option \<Rightarrow> sbs_msg \<Rightarrow> int \<Rightarrow> bool option" where
  "need_send prev_info msg now =
     do {
       let prev_state = map_option si_state prev_info;
       let prev_time = (case prev_info of None \<Rightarrow> 0 | Some li \<Rightarrow> si_time li);
       moved_far_enough \<leftarrow>
         (case prev_info of
            None \<Rightarrow> Some False
          | Some li \<Rightarrow>
              map_option (\<lambda>d. f_ge d MIN_MOVE_MI)
                (haversine_miles_py (si_lat li) (si_lon li) (m_lat msg) (m_lon msg)));
       if prev_state = None then Some True
       else if moved_far_enough then Some True
       else do {
         changed \<leftarrow> state_changed prev_state msg;
         Some (changed \<and> now - prev_time \<ge> MIN_UPDATE_SEC)
       }
     }"

text \<open>The rename of a track whose hex is known under another name.\<close>

definition rename ::
  "adsb_state \<Rightarrow> rec_ctx \<Rightarrow> string \<Rightarrow> adsb_state" where
  "rename s c cur =
     (let dn = desired_name c;
          prev_info = last_sent s cur;
          ls = (last_sent s)(cur := None)
      in s \<lparr> last_seen := AList.delete cur (last_seen s),
             last_sent := (case prev_info of None \<Rightarrow> ls | Some li \<Rightarrow> ls(dn \<mapsto> li)),
             name_to_hex := ((name_to_hex s)(cur := None))(dn \<mapsto> icao_hex c),
             hex_to_name := (hex_to_name s)(icao_hex c \<mapsto> dn) \<rparr>)"

text \<open>The global throttle: a new clock second resets the counter.\<close>

definition throttle :: "adsb_state \<Rightarrow> int \<Rightarrow> adsb_state" where
  "throttle s now =
     (if now \<noteq> last_sec s then s \<lparr> last_sec := now, sent_this_sec := 0 \<rparr> else s)"

definition renaming :: "rec_ctx \<Rightarrow> bool" where
  \<comment> \<open>\<open>current_name_for_hex and desired_name != current_name_for_hex\<close>\<close>
  "renaming c =
     (case current_name_for_hex c of None \<Rightarrow> False | Some cur \<Rightarrow> desired_name c \<noteq> cur)"

text \<open>The name the record is tracked under once the rename has been done.\<close>

definition final_name :: "rec_ctx \<Rightarrow> string" where
  "final_name c = (if renaming c then desired_name c else tracked_name c)"

text \<open>
  The identity block: the rename when the hex is known under another name, the first
  registration of a hex, and the \<open>last_seen\<close> stamp.
\<close>

definition identity_step :: "adsb_state \<Rightarrow> rec_ctx \<Rightarrow> int \<Rightarrow> adsb_state" where
  "identity_step s c now =
     (let s = (case current_name_for_hex c of
                 None \<Rightarrow> s
               | Some cur \<Rightarrow> if desired_name c \<noteq> cur then rename s c cur else s);
          tn = final_name c;
          s = (if icao_hex c \<noteq> [] \<and> hex_to_name s (icao_hex c) = None
               then s \<lparr> hex_to_name := (hex_to_name s)(icao_hex c \<mapsto> tn),
                        name_to_hex := (name_to_hex s)(tn \<mapsto> icao_hex c) \<rparr>
               else s)
      in s \<lparr> last_seen := AList.update tn now (last_seen s) \<rparr>)"

text \<open>
  The emission decision and the send. The decision and the construction of the line are
  outside the \<open>try\<close> of the send: when one of them raises, the exception reaches the
  handler of the main loop.
\<close>

definition send_step ::
  "adsb_state \<Rightarrow> rec_ctx \<Rightarrow> sbs_msg \<Rightarrow> int \<Rightarrow> string \<Rightarrow> bool \<Rightarrow> adsb_state \<times> adsb_event list" where
  "send_step s c msg now hhmmss send_ok =
     (let tn = final_name c in
      case need_send (last_sent s tn) msg now of
        None \<Rightarrow> (s, [WorkerError])
      | Some ns \<Rightarrow>
          if \<not> ns then (s, [])
          else
            (case make_adsb_aprs_object hhmmss tn (m_lat msg) (m_lon msg) (table c) (code c)
                    (m_trk msg) (m_gs msg) (m_alt msg) (Some (icao_hex c)) (callsign c)
                    (Some (sym_tag c)) False of
               None \<Rightarrow> (s, [WorkerError])
             | Some pkt \<Rightarrow>
                 if send_ok
                 then (s \<lparr> last_sent := (last_sent s)(tn \<mapsto>
                              \<lparr> si_time = now, si_state = msg, si_lat = m_lat msg,
                                si_lon = m_lon msg, si_icao = icao_hex c \<rparr>),
                            sent_this_sec := sent_this_sec s + 1 \<rparr>,
                       [Pos now pkt])
                 else (s, [PosFailed])))"

text \<open>
  From the global throttle to the send: the part of the loop body a record reaches when
  no range or landing rule has stopped it. The delete line of a rename is built from the
  tables as they are before the rename.
\<close>

definition emit_stage ::
  "adsb_state \<Rightarrow> rec_ctx \<Rightarrow> sbs_msg \<Rightarrow> int \<Rightarrow> string \<Rightarrow> bool \<Rightarrow> adsb_state \<times> adsb_event list" where
  "emit_stage s c msg now hhmmss send_ok =
     (let s = throttle s now in
      if sent_this_sec s \<ge> MAX_PKTS_PER_SEC then (s, [])
      else
        let ev1 = (case current_name_for_hex c of
                     None \<Rightarrow> []
                   | Some cur \<Rightarrow>
                       if desired_name c \<noteq> cur
                       then delete_event s c msg cur now hhmmss send_ok else []);
            (s, ev2) = send_step (identity_step s c now) c msg now hhmmss send_ok
        in (s, ev1 @ ev2))"

text \<open>The landed rules: suppression re-enable, suppression, dwell.\<close>

definition landed_stage ::
  "adsb_state \<Rightarrow> rec_ctx \<Rightarrow> sbs_msg \<Rightarrow> int \<Rightarrow> string \<Rightarrow> bool \<Rightarrow> adsb_state \<times> adsb_event list" where
  "landed_stage s c msg now hhmmss send_ok =
     (let tn = tracked_name c;
          alt = m_alt msg;
          low = (case alt of None \<Rightarrow> False | Some a \<Rightarrow> f_le a LANDED_ALT_FT);
          s = (if tn \<in> landed_block s \<and>
                  (case alt of None \<Rightarrow> True | Some a \<Rightarrow> f_gt a LAND_CLEAR_ALT)
               then s \<lparr> landed_block := landed_block s - {tn},
                        low_alt_since := (low_alt_since s)(tn := None) \<rparr>
               else s)
      in
      if tn \<in> landed_block s \<and> low then (s, [])
      else if low then
        (let s = (if low_alt_since s tn = None
                  then s \<lparr> low_alt_since := (low_alt_since s)(tn \<mapsto> now) \<rparr> else s)
         in
         if now - the (low_alt_since s tn) \<ge> LANDED_WAIT_SEC
         then dwell_delete s c msg now hhmmss send_ok
         else emit_stage s c msg now hhmmss send_ok)
      else
        emit_stage (s \<lparr> low_alt_since := (low_alt_since s)(tn := None) \<rparr>)
          c msg now hhmmss send_ok)"

text \<open>
  One SBS record through the loop body. \<open>now\<close> and \<open>hhmmss\<close> are the clock readings while
  the record is processed; \<open>send_ok\<close> tells whether \<open>aprs.send\<close> returns. When the
  distance computation raises, nothing has been touched yet.
\<close>

definition adsb_record ::
  "meta_cache \<Rightarrow> adsb_state \<Rightarrow> sbs_msg \<Rightarrow> int \<Rightarrow> string \<Rightarrow> bool \<Rightarrow> adsb_state \<times> adsb_event list" where
  "adsb_record mc s msg now hhmmss send_ok =
     (let c = record_ctx mc s msg in
      case dist_kbuf c of
        None \<Rightarrow> (s, [WorkerError])
      | Some d \<Rightarrow>
          if seen s (tracked_name c) \<and> f_gt d CLEAR_DISTANCE_MI
          then range_clear s c msg now hhmmss send_ok
          else if \<not> seen s (tracked_name c) \<and> f_gt d ADD_DISTANCE_MI
          then (s, [])
          else landed_stage s c msg now hhmmss send_ok)"

text \<open>The cleanup phase after a batch of records: the TTL sweep.\<close>

definition expire_one ::
  "meta_cache \<Rightarrow> int \<Rightarrow> string \<Rightarrow> bool \<Rightarrow> adsb_state \<times> adsb_event list \<Rightarrow> string \<Rightarrow>
   adsb_state \<times> adsb_event list" where
  "expire_one mc now hhmmss send_ok acc n =
     (let s = fst acc;
          (la, lo) = (case last_sent s n of
                        None \<Rightarrow> (Fin 0, Fin 0)
                      | Some li \<Rightarrow> (si_lat li, si_lon li));
          hx = (case name_to_hex s n of
                  None \<Rightarrow> None | Some h \<Rightarrow> if h = [] then None else Some h);
          mt = (case hx of
                  None \<Rightarrow> no_meta
                | Some h \<Rightarrow> (case mc h of None \<Rightarrow> no_meta | Some m \<Rightarrow> m));
          (t, cd, tag) = symbol_for_category (cat mt) (ac_type mt)
      in
      (s \<lparr> last_seen := AList.delete n (last_seen s),
            last_sent := (last_sent s)(n := None),
            low_alt_since := (low_alt_since s)(n := None),
            landed_block := landed_block s - {n},
            name_to_hex := (name_to_hex s)(n := None),
            hex_to_name := (case hx of
                              None \<Rightarrow> hex_to_name s
                            | Some h \<Rightarrow> (hex_to_name s)(h := None)) \<rparr>,
       snd acc @
       (case make_adsb_aprs_object hhmmss n la lo t cd
               None None None None None (Some tag) True of
          None \<Rightarrow> []
        | Some delpkt \<Rightarrow> if send_ok then [Del now delpkt] else [])))"

definition cleanup ::
  "meta_cache \<Rightarrow> adsb_state \<Rightarrow> int \<Rightarrow> string \<Rightarrow> bool \<Rightarrow> adsb_state \<times> adsb_event list" where
  "cleanup mc s now hhmmss send_ok =
     (let to_delete = map fst (filter (\<lambda>(n, t0). now - t0 \<ge> OBJECT_TTL_SEC) (last_seen s))
      in foldl (expire_one mc now hhmmss send_ok) (s, []) to_delete)"

text \<open>
  A run of the worker: SBS records and cleanup sweeps in the order the loop meets them,
  each with the metadata cache, the clock readings and the outcome of \<open>aprs.send\<close> at
  that moment.
\<close>

datatype adsb_input =
  Record meta_cache sbs_msg int string bool
| Sweep meta_cache int string bool



text \<open>The identity invariant: \<open>name_to_hex[hex_to_name[h]] == h\<close> for every hex in \<open>hex_to_name\<close>.\<close>

definition hex_name_consistent :: "adsb_state \<Rightarrow> bool" where
  "hex_name_consistent s =
     (\<forall>h n. hex_to_name s h = Some n \<longrightarrow> name_to_hex s n = Some h)"

text \<open>
  A record collides when the name it asks for is registered in \<open>name_to_hex\<close> for another
  hex. A run is collision free when none of its records collides with the tables as they
  are when the record is processed.
\<close>

definition no_collision :: "meta_cache \<Rightarrow> adsb_state \<Rightarrow> sbs_msg \<Rightarrow> bool" where
  "no_collision mc s msg =
     (let c = record_ctx mc s msg in
      name_to_hex s (desired_name c) = None \<or>
      name_to_hex s (desired_name c) = Some (icao_hex c))"

fun collision_free :: "adsb_state \<Rightarrow> adsb_input list \<Rightarrow> bool" where
  "collision_free s [] = True"
| "collision_free s (Record mc msg now hhmmss send_ok # is) =
     (no_collision mc s msg \<and>
      collision_free (fst (adsb_record mc s msg now hhmmss send_ok)) is)"
| "collision_free s (Sweep mc now hhmmss send_ok # is) =
     collision_free (fst (cleanup mc s now hhmmss send_ok)) is"

section \<open>ADS-B: the emission rule\<close>





section \<open>Evaluation rules for the string helpers\<close>

lemmas str_defs =
  startswith_def py_int_def or_else_def strip_def lstrip_def rstrip_def is_space_def
  int_strip_def is_int_space_def
  py_digits_def is_digit_def digit_val_def

lemmas bit_defs =
  sixbit_unpack_def six_bits_def ASCII2SIX_def u_bits_def s_bits_def bin_val_def

lemma bin_val_snoc: "bin_val (xs @ [b]) = 2 * bin_val xs + (if b then 1 else 0)"
  by (simp add: bin_val_def)

lemma bin_val_lt: "bin_val b < 2 ^ length b"
  by (induction b rule: rev_induct) (auto simp: bin_val_snoc bin_val_def)

lemma bin_val_Cons: "bin_val (x # xs) = (if x then 2 ^ length xs else 0) + bin_val xs"
  by (induction xs rule: rev_induct)
     (auto simp: bin_val_snoc bin_val_def simp flip: append_Cons)

lemma u_bits_Some:
  "0 < len \<Longrightarrow> start < length bs \<Longrightarrow> \<exists>v. u_bits bs start len = Some v"
  by (simp add: u_bits_def)

section \<open>AIS decoder: position sanity\<close>

text \<open>
  The signed reading of a 17-bit field lies in \<open>[-65536, 65535]\<close>: it never equals
  \<open>0x1FFFF\<close>, so the latitude half of the type-27 sentinel test cannot fire.
\<close>

lemma s_bits_17_range: "s_bits bs start 17 < 65536"
proof -
  define b where "b = take 17 (drop start bs)"
  have len: "length b \<le> 17" by (simp add: b_def)
  show ?thesis
  proof (cases b)
    case Nil
    then show ?thesis by (simp add: s_bits_def b_def [symmetric])
  next
    case (Cons x xs)
    have lx: "length xs \<le> 16" using len Cons by simp
    have "bin_val xs < 2 ^ length xs" by (rule bin_val_lt)
    also have "(2::nat) ^ length xs \<le> 2 ^ 16"
      using lx by (intro power_increasing) simp_all
    finally have xs16: "bin_val xs < 65536" by simp
    have "bin_val b < 2 ^ length b" by (rule bin_val_lt)
    also have "(2::nat) ^ length b \<le> 2 ^ 17"
      using len by (intro power_increasing) simp_all
    finally have b17: "bin_val b < 131072" by simp
    show ?thesis
    proof (cases x)
      case True
      then show ?thesis using b17 Cons
        by (simp add: s_bits_def b_def [symmetric])
    next
      case False
      then show ?thesis using xs16 Cons
        by (simp add: s_bits_def b_def [symmetric] bin_val_Cons)
    qed
  qed
qed

lemma decode_position_rejects_class_a:
  assumes "168 \<le> length bs" "u_bits bs 0 6 = Some mt" "mt \<in> {1, 2, 3}"
    and "\<bar>s_bits bs 61 28\<bar> \<ge> 108600000 \<or> \<bar>s_bits bs 89 27\<bar> \<ge> 54600000"
  shows "decode_position bs = Some (Why ''invalid_latlon'')"
proof -
  obtain a where a: "u_bits bs 50 10 = Some a" using u_bits_Some [of 10 50 bs] assms(1) by auto
  obtain b where b: "u_bits bs 116 12 = Some b" using u_bits_Some [of 12 116 bs] assms(1) by auto
  obtain c where c: "u_bits bs 128 9 = Some c" using u_bits_Some [of 9 128 bs] assms(1) by auto
  show ?thesis using assms a b c by (auto simp: decode_position_def)
qed

lemma decode_position_rejects_class_b:
  assumes "168 \<le> length bs" "u_bits bs 0 6 = Some mt" "mt \<in> {18, 19}"
    and "\<bar>s_bits bs 57 28\<bar> \<ge> 108600000 \<or> \<bar>s_bits bs 85 27\<bar> \<ge> 54600000"
  shows "decode_position bs = Some (Why ''invalid_latlon'')"
proof -
  obtain a where a: "u_bits bs 46 10 = Some a" using u_bits_Some [of 10 46 bs] assms(1) by auto
  obtain b where b: "u_bits bs 112 12 = Some b" using u_bits_Some [of 12 112 bs] assms(1) by auto
  obtain c where c: "u_bits bs 124 9 = Some c" using u_bits_Some [of 9 124 bs] assms(1) by auto
  show ?thesis using assms a b c by (auto simp: decode_position_def)
qed

lemma decode_basestation_rejects:
  assumes "168 \<le> length bs" "u_bits bs 0 6 = Some 4"
    and "\<bar>s_bits bs 79 28\<bar> \<ge> 108600000 \<or> \<bar>s_bits bs 107 27\<bar> \<ge> 54600000"
  shows "decode_basestation bs = Some (Why ''invalid_latlon'')"
  using assms by (auto simp: decode_basestation_def)

lemma decode_longrange_rejects_lon_sentinel:
  assumes "96 \<le> length bs" "u_bits bs 0 6 = Some 27" "s_bits bs 44 18 = 0x1FFFF"
  shows "decode_longrange bs = Some (Why ''invalid_latlon'')"
  using assms by (simp add: decode_longrange_def)

text \<open>
  A type-27 record is accepted whatever its latitude field holds, as long as the signed
  longitude is not \<open>0x1FFFF\<close>.
\<close>

lemma decode_longrange_ignores_lat:
  assumes "96 \<le> length bs" "u_bits bs 0 6 = Some 27" "s_bits bs 44 18 \<noteq> 0x1FFFF"
  shows "\<exists>i. decode_longrange bs = Some (Info i) \<and> lat i = real_of_int (s_bits bs 62 17) / 600"
proof -
  obtain m where m: "u_bits bs 8 30 = Some m" using u_bits_Some [of 30 8 bs] assms(1) by auto
  have "s_bits bs 62 17 \<noteq> 131071" using s_bits_17_range [of bs 62] by simp
  then show ?thesis using assms m by (simp add: decode_longrange_def)
qed

text \<open>
  C7. The claim: the scaled-by-600000 decoders reject out-of-range raw positions (the
  lemmas above), and \<open>decode_longrange\<close> rejects every record whose 17-bit latitude field
  is all ones. The second half fails: \<open>K5Mwqgh=75?wwP00\<close> is a 96-bit type-27 payload
  with MMSI 366999999, longitude field -47340 and latitude field \<open>0x1FFFF\<close>; the field is
  read signed, as -1, and the record is decoded with latitude -1/600 degrees.
\<close>

theorem decode_longrange_lat_all_ones_accepted:
  "decode_longrange (sixbit_unpack ''K5Mwqgh=75?wwP00'') =
     Some (Info \<lparr> msgtype = 27, mmsi = 366999999, lat = - 1 / 600, lon = - 47340 / 600,
                  sog = None, cog = None, hdg = None \<rparr>)"
  by (simp add: decode_longrange_def bit_defs)

section \<open>AIS decode chain: exceptions\<close>

lemma decode_static_empty: "decode_static [] = None"
  by (simp add: decode_static_def u_bits_def)

text \<open>
  C9. The claim: the decode chain is total, also on an empty payload, and never reaches
  the worker's exception handler. It fails: \<open>decode_static\<close> reads the message type with
  \<open>_u\<close> before any length check, \<open>int("", 2)\<close> raises on the empty bit string, and the
  worker's handler closes and reopens the APRS connection.
\<close>

theorem ais_line_empty_payload_reaches_handler:
  "ais_line ais_init ''!AIVDM,1,1,,A,,0*00'' now hhmmss send_ok =
     (ais_init, [HandlerReconnect])"
  by (simp add: ais_line_def parse_nmea_def nmea_fields_def assemble_def str_defs ais_init_def sixbit_unpack_def
      decode_static_def u_bits_def)

section \<open>Object names\<close>

lemma haversine_self: "haversine R a b a b = 0"
  by (simp add: haversine_def radians_def atan2_def)

lemma length_ljust_take: "length (ljust 9 (take 9 s)) = 9"
  by (simp add: ljust_def)

text \<open>The ADS-B half of the name invariant: \<open>name_from_callsign_or_hex\<close> is 9 wide.\<close>

lemma name_from_callsign_or_hex_length:
  "length (name_from_callsign_or_hex cs hx) = 9"
  by (simp add: name_from_callsign_or_hex_def length_ljust_take split: option.splits)

lemma adsb_timestamp_z:
  "make_adsb_aprs_object hhmmss name la lo tb cd trk gs alt icao cs tag del = Some obj \<Longrightarrow>
     ob_name obj = name \<and> last (ob_ts obj) = CHR ''z''"
  by (auto simp: make_adsb_aprs_object_def Let_def split: Option.bind_splits)

lemma ais_timestamp_z:
  "last (ob_ts (fst (make_ais_aprs_object hhmmss info vname))) = CHR ''z''"
  by (simp add: make_ais_aprs_object_def Let_def split: prod.splits)

lemma show_nat_2_30: "show_nat 1073741823 = ''1073741823''"
  by (simp add: show_nat.simps digit_char_def)

lemma decode_position_all_ones_mmsi:
  "decode_position (sixbit_unpack ''1?wwwwh000JFli0HS2p00?v00000'') =
     Some (Info \<lparr> msgtype = 1, mmsi = 1073741823, lat = 42.9, lon = - 78.9,
                  sog = Some 0, cog = Some 0, hdg = None \<rparr>)"
  by (simp add: decode_position_def bit_defs)

text \<open>
  C2. The claim: every emitted object line has a 9-character name field and a timestamp
  ending in \<open>z\<close>; in particular for any 30-bit MMSI. The timestamps and the ADS-B names
  are as claimed (lemmas above). The AIS name is not: the type-1 sentence below carries
  the MMSI field \<open>2^30 - 1 = 1073741823\<close> at the range centre; it passes every gate of the
  manager and the line is sent with a 10-character name field, since neither
  \<open>f"{mmsi:09d}"\<close> nor \<open>f"{obj_name:<9s}"\<close> truncates.
\<close>

theorem ais_line_ten_digit_mmsi_name:
  "snd (ais_line ais_init ''!AIVDM,1,1,,A,1?wwwwh000JFli0HS2p00?v00000,0*00'' now hhmmss True) =
     [Sent now \<lparr> ob_name = ''1073741823'', ob_ts = hhmmss @ ''z'',
                  ob_lat = 42.9, ob_lon = - 78.9,
                  ob_table = CHR ''/'', ob_code = CHR ''s'',
                  ob_comment = ''SOG 0kt COG 000 MMSI 1073741823'' \<rparr>]"
proof -
  have p: "parse_nmea Map.empty ''!AIVDM,1,1,,A,1?wwwwh000JFli0HS2p00?v00000,0*00'' =
             (Info (''1?wwwwh000JFli0HS2p00?v00000'', 0), Map.empty)"
    by (simp add: parse_nmea_def nmea_fields_def assemble_def str_defs)
  have st: "decode_static (sixbit_unpack ''1?wwwwh000JFli0HS2p00?v00000'') =
              Some (Why ''not_static1'')"
    by (simp add: decode_static_def bit_defs show_nat.simps digit_char_def)
  have mk: "make_ais_aprs_object hhmmss
              \<lparr> msgtype = 1, mmsi = 1073741823, lat = 42.9, lon = - 78.9,
                sog = Some 0, cog = Some 0, hdg = None \<rparr> None =
            (\<lparr> ob_name = ''1073741823'', ob_ts = hhmmss @ ''z'',
               ob_lat = 42.9, ob_lon = - 78.9,
               ob_table = CHR ''/'', ob_code = CHR ''s'',
               ob_comment = ''SOG 0kt COG 000 MMSI 1073741823'' \<rparr>,
             ''1073741823'', CHR ''/'', CHR ''s'')"
    by (simp add: make_ais_aprs_object_def zero_pad_def show_nat_2_30 ljust_def
        aprs_symbol_for_def int_or_0_def show_nat.simps [of 0] digit_char_def Let_def
        numeral_2_eq_2)
  show ?thesis
    by (simp add: ais_line_def ais_init_def p st decode_position_all_ones_mmsi
        decode_any_def ais_manage_def haversine_nm_def haversine_self CENTER_LAT_def
        CENTER_LON_def MAX_RANGE_NM_def MAX_PKTS_PER_SEC_def mk Let_def
        del: One_nat_def)
qed

section \<open>SBS line decoder\<close>

lemma parse_sbs_accepts_iff:
  "(parse_sbs pyfloat line \<noteq> None) =
     (let f = split_on (CHR '','') (strip line) in
      22 \<le> length f \<and> f ! 0 = ''MSG'' \<and>
      (py_int (f ! 1) = Some 3 \<or> py_int (f ! 1) = Some 4) \<and>
      f ! 14 \<noteq> [] \<and> pyfloat (f ! 14) \<noteq> None \<and>
      f ! 15 \<noteq> [] \<and> pyfloat (f ! 15) \<noteq> None)"
  unfolding parse_sbs_def parse_sbs_fields_def float_field_def Let_def
  by (simp split: option.splits)

lemma parse_sbs_optional_fields:
  "parse_sbs pyfloat line = Some r \<Longrightarrow>
     (let f = split_on (CHR '','') (strip line) in
      m_alt r = float_field pyfloat (f ! 11) \<and>
      m_gs r = float_field pyfloat (f ! 12) \<and>
      m_trk r = float_field pyfloat (f ! 13))"
  unfolding parse_sbs_def parse_sbs_fields_def Let_def
  by (auto split: option.splits if_splits)

lemma nth_take16:
  assumes "take 16 f = take 16 g" "i < 16"
  shows "f ! i = g ! i"
proof -
  have "f ! i = take 16 f ! i" using assms(2) by simp
  also have "\<dots> = take 16 g ! i" by (simp only: assms(1))
  also have "\<dots> = g ! i" using assms(2) by simp
  finally show ?thesis .
qed

lemma parse_sbs_fields_first_16:
  assumes "22 \<le> length f" "22 \<le> length g" "take 16 f = take 16 g"
  shows "parse_sbs_fields pyfloat f = parse_sbs_fields pyfloat g"
proof -
  note t = nth_take16 [OF assms(3)]
  have e: "f ! 0 = g ! 0" "f ! 1 = g ! 1" "f ! 4 = g ! 4" "f ! 10 = g ! 10" "f ! 11 = g ! 11"
    "f ! 12 = g ! 12" "f ! 13 = g ! 13" "f ! 14 = g ! 14" "f ! 15 = g ! 15"
    using t [of 0] t [of 1] t [of 4] t [of 10] t [of 11] t [of 12] t [of 13] t [of 14] t [of 15]
    by simp_all
  have l: "(length f < 22) = (length g < 22)" "(length f > 10) = (length g > 10)"
    using assms(1,2) by simp_all
  show ?thesis unfolding parse_sbs_fields_def e l ..
qed

text \<open>
  C10. \<open>parse_sbs\<close> returns a record exactly for the lines with at least 22 comma-separated
  fields whose first field is \<open>MSG\<close>, whose second field reads as the integer 3 or 4 and
  whose latitude and longitude fields (15 and 16) are non-empty and readable as floats;
  so a line with fewer than 22 fields is rejected, although the result depends on the
  first 16 fields only; the altitude, ground-speed and track fields (12, 13, 14) play no
  part in the acceptance: empty or unreadable, they are \<open>None\<close> in the record.
\<close>

theorem parse_sbs_contract:
  "((parse_sbs pyfloat line \<noteq> None) =
      (let f = split_on (CHR '','') (strip line) in
       22 \<le> length f \<and> f ! 0 = ''MSG'' \<and>
       (py_int (f ! 1) = Some 3 \<or> py_int (f ! 1) = Some 4) \<and>
       f ! 14 \<noteq> [] \<and> pyfloat (f ! 14) \<noteq> None \<and>
       f ! 15 \<noteq> [] \<and> pyfloat (f ! 15) \<noteq> None)) \<and>
   (\<forall>r. parse_sbs pyfloat line = Some r \<longrightarrow>
      (let f = split_on (CHR '','') (strip line) in
       m_alt r = (if f ! 11 = [] then None else pyfloat (f ! 11)) \<and>
       m_gs r = (if f ! 12 = [] then None else pyfloat (f ! 12)) \<and>
       m_trk r = (if f ! 13 = [] then None else pyfloat (f ! 13)))) \<and>
   (\<forall>g h. 22 \<le> length g \<and> 22 \<le> length h \<and> take 16 g = take 16 h \<longrightarrow>
      parse_sbs_fields pyfloat g = parse_sbs_fields pyfloat h)"
proof (intro conjI allI impI)
  show "(parse_sbs pyfloat line \<noteq> None) =
      (let f = split_on (CHR '','') (strip line) in
       22 \<le> length f \<and> f ! 0 = ''MSG'' \<and>
       (py_int (f ! 1) = Some 3 \<or> py_int (f ! 1) = Some 4) \<and>
       f ! 14 \<noteq> [] \<and> pyfloat (f ! 14) \<noteq> None \<and>
       f ! 15 \<noteq> [] \<and> pyfloat (f ! 15) \<noteq> None)"
    by (rule parse_sbs_accepts_iff)
next
  fix r assume "parse_sbs pyfloat line = Some r"
  from parse_sbs_optional_fields [OF this]
  show "let f = split_on (CHR '','') (strip line) in
       m_alt r = (if f ! 11 = [] then None else pyfloat (f ! 11)) \<and>
       m_gs r = (if f ! 12 = [] then None else pyfloat (f ! 12)) \<and>
       m_trk r = (if f ! 13 = [] then None else pyfloat (f ! 13))"
    by (simp add: float_field_def Let_def)
next
  fix g h :: "string list"
  assume "22 \<le> length g \<and> 22 \<le> length h \<and> take 16 g = take 16 h"
  then show "parse_sbs_fields pyfloat g = parse_sbs_fields pyfloat h"
    by (simp add: parse_sbs_fields_first_16)
qed

text \<open>
  A 22-field \<open>MSG,3\<close> line with a non-numeric altitude and track is accepted with both
  \<open>None\<close>; the same line cut to 21 fields is rejected.
\<close>

theorem parse_sbs_contract_witness:
  "parse_sbs example_float
     ''MSG,3,1,1,abc123,1,2024/01/01,00:00:00.000,2024/01/01,00:00:00.000,UAL123 ,abc,,x,42.95,-78.70,,,0,0,0,0''
     = Some \<lparr> m_icao = Some ''ABC123'', m_callsign = Some ''UAL123'', m_lat = Fin 42.95,
              m_lon = Fin (- 78.70), m_trk = None, m_gs = None, m_alt = None \<rparr> \<and>
   parse_sbs example_float
     ''MSG,3,1,1,abc123,1,2024/01/01,00:00:00.000,2024/01/01,00:00:00.000,UAL123 ,abc,,x,42.95,-78.70,,,0,0,0''
     = None"
proof -
  have a: "parse_sbs example_float
       ''MSG,3,1,1,abc123,1,2024/01/01,00:00:00.000,2024/01/01,00:00:00.000,UAL123 ,abc,,x,42.95,-78.70,,,0,0,0,0''
     = Some \<lparr> m_icao = Some ''ABC123'', m_callsign = Some ''UAL123'', m_lat = Fin 42.95,
              m_lon = Fin (- 78.70), m_trk = None, m_gs = None, m_alt = None \<rparr>"
    by (simp add: parse_sbs_def parse_sbs_fields_def float_field_def example_float_def str_defs
        upper_def upper_char_def)
  have "\<not> (let f = split_on (CHR '','') (strip
       ''MSG,3,1,1,abc123,1,2024/01/01,00:00:00.000,2024/01/01,00:00:00.000,UAL123 ,abc,,x,42.95,-78.70,,,0,0,0'')
       in 22 \<le> length f \<and> f ! 0 = ''MSG'' \<and>
       (py_int (f ! 1) = Some 3 \<or> py_int (f ! 1) = Some 4) \<and>
       f ! 14 \<noteq> [] \<and> example_float (f ! 14) \<noteq> None \<and>
       f ! 15 \<noteq> [] \<and> example_float (f ! 15) \<noteq> None)"
    by (simp add: str_defs)
  with parse_sbs_contract [of example_float
       "''MSG,3,1,1,abc123,1,2024/01/01,00:00:00.000,2024/01/01,00:00:00.000,UAL123 ,abc,,x,42.95,-78.70,,,0,0,0''"]
  have b: "parse_sbs example_float
       ''MSG,3,1,1,abc123,1,2024/01/01,00:00:00.000,2024/01/01,00:00:00.000,UAL123 ,abc,,x,42.95,-78.70,,,0,0,0''
     = None"
    by blast
  from a b show ?thesis by (rule conjI)
qed

section \<open>AIS frame assembler: reassembly\<close>

lemma dom_latest: "dom (map_of (rev pend)) = fst ` set pend"
  by (simp add: dom_map_of_conv_image_fst)

lemma all_arrived_iff: "all_arrived N pend = ({1 .. N} \<subseteq> fst ` set pend)"
  by (auto simp: all_arrived_def list_all_iff)

lemma card_full:
  assumes "S \<subseteq> {1 .. N}" "1 \<le> N"
  shows "(int (card S) = N) = ({1 .. N} \<subseteq> S)"
proof
  assume c: "int (card S) = N"
  have f: "finite {1 .. N}" by simp
  have "card S = card {1 .. N}" using c assms(2) by simp
  with assms(1) f have "S = {1 .. N}" by (simp add: card_subset_eq)
  then show "{1 .. N} \<subseteq> S" by simp
next
  assume "{1 .. N} \<subseteq> S"
  with assms(1) have "S = {1 .. N}" by auto
  then show "int (card S) = N" using assms(2) by simp
qed

lemma join_latest: "join_payloads (map_of (rev pend)) N = concat (map (latest pend) [1 .. N])"
  by (simp add: join_payloads_def latest_def [abs_def])

lemma assemble_step:
  assumes k: "1 \<le> k" "k \<le> N"
    and sub: "fst ` set pend \<subseteq> {1 .. N}"
    and inc: "pend \<noteq> [] \<longrightarrow> \<not> all_arrived N pend"
    and st0: "pend = [] \<longrightarrow> store (sq, ch) = None"
    and st1: "pend \<noteq> [] \<longrightarrow>
               (\<exists>f0. store (sq, ch) = Some \<lparr> total = N, payloads = map_of (rev pend), fill = f0 \<rparr>)"
  shows "assemble store (N, k, sq, ch, p, f) =
           (if all_arrived N (pend @ [(k, p)])
            then (Info (concat (map (latest (pend @ [(k, p)])) [1 .. N]), f),
                  store((sq, ch) := None))
            else (Why ''waiting_frag'',
                  store((sq, ch) \<mapsto> \<lparr> total = N, payloads = map_of (rev (pend @ [(k, p)])),
                                         fill = f \<rparr>)))"
proof (cases "N = 1")
  case True
  then have k1: "k = 1" using k by simp
  have pe: "pend = []"
  proof (rule ccontr)
    assume ne: "pend \<noteq> []"
    then obtain a where a: "a \<in> fst ` set pend" by (cases pend) auto
    with sub True have "a = 1" by auto
    with a True have "all_arrived N pend" by (simp add: all_arrived_iff)
    with inc ne show False by simp
  qed
  have arr: "all_arrived N (pend @ [(k, p)])"
    by (simp add: all_arrived_iff pe k1 True)
  have up: "store((sq, ch) := None) = store" using st0 pe by (simp add: fun_upd_idem)
  have lt: "latest [(1, p)] 1 = p"
    by (simp add: latest_def)
  show ?thesis
    using arr by (simp add: assemble_def True k1 up pe lt)
next
  case False
  define pend' where "pend' = pend @ [(k, p)]"
  have N1: "1 \<le> N" using k by simp
  have sub': "fst ` set pend' \<subseteq> {1 .. N}" using sub k by (auto simp: pend'_def)
  have cd: "(int (card (dom (map_of (rev pend')))) = N) = all_arrived N pend'"
    unfolding dom_latest all_arrived_iff by (rule card_full [OF sub' N1])
  show ?thesis
  proof (cases "pend = []")
    case True
    with st0 have "store (sq, ch) = None" by simp
    then show ?thesis
      using False cd by (simp add: assemble_def Let_def join_latest [symmetric] pend'_def True)
  next
    case ne: False
    then obtain f0 where
      "store (sq, ch) = Some \<lparr> total = N, payloads = map_of (rev pend), fill = f0 \<rparr>"
      using st1 by blast
    then show ?thesis
      using False cd by (simp add: assemble_def Let_def join_latest [symmetric] pend'_def)
  qed
qed

lemma run_nmea_refines:
  assumes "map nmea_fields lines = map (\<lambda>(k, p, f). Info (N, k, sq, ch, p, f)) frs"
    and "list_all (\<lambda>(k, p, f). 1 \<le> k \<and> k \<le> N) frs"
    and "fst ` set pend \<subseteq> {1 .. N}"
    and "pend \<noteq> [] \<longrightarrow> \<not> all_arrived N pend"
    and "pend = [] \<longrightarrow> store (sq, ch) = None"
    and "pend \<noteq> [] \<longrightarrow>
           (\<exists>f0. store (sq, ch) = Some \<lparr> total = N, payloads = map_of (rev pend), fill = f0 \<rparr>)"
  shows "run_nmea store lines = spec_reassemble N pend frs"
  using assms
proof (induction frs arbitrary: lines store pend)
  case Nil
  then show ?case by simp
next
  case (Cons x frs)
  obtain k p f where x: "x = (k, p, f)" by (cases x)
  from Cons.prems(1) obtain l ls where ls: "lines = l # ls"
    by (cases lines) simp_all
  have "nmea_fields l # map nmea_fields ls =
          Info (N, k, sq, ch, p, f) # map (\<lambda>(k, p, f). Info (N, k, sq, ch, p, f)) frs"
    using Cons.prems(1) by (simp only: ls x list.map prod.case)
  then have "nmea_fields l = Info (N, k, sq, ch, p, f) \<and>
             map nmea_fields ls = map (\<lambda>(k, p, f). Info (N, k, sq, ch, p, f)) frs"
    by (simp only: list.inject)
  then have l: "nmea_fields l = Info (N, k, sq, ch, p, f)"
    and rest: "map nmea_fields ls = map (\<lambda>(k, p, f). Info (N, k, sq, ch, p, f)) frs"
    by blast+
  from Cons.prems(2) have k: "1 \<le> k" "k \<le> N"
    and okr: "list_all (\<lambda>(k, p, f). 1 \<le> k \<and> k \<le> N) frs"
    by (simp_all add: x)
  note step = assemble_step [where store = store and sq = sq and ch = ch and p = p and f = f,
      OF k Cons.prems(3) Cons.prems(4) Cons.prems(5) Cons.prems(6)]
  show ?case
  proof (cases "all_arrived N (pend @ [(k, p)])")
    case True
    have "run_nmea (store((sq, ch) := None)) ls = spec_reassemble N [] frs"
      by (rule Cons.IH [OF rest okr]) simp_all
    then show ?thesis
      using True by (simp add: ls x parse_nmea_def l step)
  next
    case False
    have s3: "fst ` set (pend @ [(k, p)]) \<subseteq> {1 .. N}"
      using Cons.prems(3) k by auto
    have "run_nmea (store((sq, ch) \<mapsto> \<lparr> total = N, payloads = map_of (rev (pend @ [(k, p)])),
                                         fill = f \<rparr>)) ls
          = spec_reassemble N (pend @ [(k, p)]) frs"
      by (rule Cons.IH [OF rest okr s3]) (use False in \<open>auto simp: fun_upd_def\<close>)
    then show ?thesis
      using False by (simp add: ls x parse_nmea_def l step)
  qed
qed

text \<open>
  C8, as amended. For every sequence of sentences that share a \<open>(sequence_id, channel)\<close>
  key, carry the fragment count \<open>N\<close> and fragment numbers within \<open>1..N\<close>, fed to
  \<open>parse_nmea\<close> from a table with no entry for the key: the results are those of the
  reassembly as the specification words it. An assembled payload is returned exactly when
  every fragment number \<open>1..N\<close> has arrived since the last assembly; it is the
  concatenation of the payloads in ascending fragment number, with the fill-bit count of
  the last fragment seen; every other sentence returns the waiting indication. The
  restriction to fragment numbers within \<open>1..N\<close> is needed: the table completes an entry
  when the count of distinct fragment numbers received reaches \<open>N\<close>, whatever the numbers.
\<close>

theorem parse_nmea_reassembles:
  assumes "map nmea_fields lines = map (\<lambda>(k, p, f). Info (N, k, sq, ch, p, f)) frs"
    and "list_all (\<lambda>(k, p, f). 1 \<le> k \<and> k \<le> N) frs"
    and "store (sq, ch) = None"
  shows "run_nmea store lines = spec_reassemble N [] frs"
  by (rule run_nmea_refines [OF assms(1) assms(2)]) (simp_all add: assms(3))

text \<open>
  Two fragments arriving in the order 2, 1: the first sentence waits, the second returns
  the payloads in the order 1, 2 with the fill bits of fragment 1, the last one seen.
\<close>

theorem parse_nmea_reassembles_witness:
  "run_nmea Map.empty [''!AIVDM,2,2,3,A,def,2*00'', ''!AIVDM,2,1,3,A,abc,0*00''] =
     [Why ''waiting_frag'', Info (''abcdef'', 0)]"
proof -
  have f: "map nmea_fields [''!AIVDM,2,2,3,A,def,2*00'', ''!AIVDM,2,1,3,A,abc,0*00''] =
           map (\<lambda>(k, p, f). Info (2, k, ''3'', ''A'', p, f)) [(2, ''def'', 2), (1, ''abc'', 0)]"
    by (simp add: nmea_fields_def str_defs)
  have r: "list_all (\<lambda>(k, p, f). 1 \<le> k \<and> k \<le> (2::int)) [(2, ''def'', 2), (1, ''abc'', 0)]"
    by simp
  have u: "[1 .. 2::int] = [1, 2]"
    by (simp add: upto.simps)
  have "spec_reassemble 2 [] [(2, ''def'', 2), (1, ''abc'', 0)] =
          [Why ''waiting_frag'', Info (''abcdef'', 0)]"
    by (simp add: all_arrived_def latest_def u)
  with parse_nmea_reassembles [OF f r, of Map.empty] show ?thesis by simp
qed

text \<open>
  The claim as stated, for every sequence of sentences of one key, fails: after fragment
  1 of 2, a sentence numbered 3 of 2 completes the entry, and the payload of fragment 1
  alone is returned although fragment 2 has not arrived. The reassembly of the
  specification is still waiting there.
\<close>

theorem parse_nmea_reassembles_counterexample:
  "map nmea_fields [''!AIVDM,2,1,3,A,abc,0*00'', ''!AIVDM,2,3,3,A,def,0*00''] =
     map (\<lambda>(k, p, f). Info (2, k, ''3'', ''A'', p, f)) [(1, ''abc'', 0), (3, ''def'', 0)] \<and>
   run_nmea Map.empty [''!AIVDM,2,1,3,A,abc,0*00'', ''!AIVDM,2,3,3,A,def,0*00''] =
     [Why ''waiting_frag'', Info (''abc'', 0)] \<and>
   \<not> all_arrived 2 [(1, ''abc''), (3, ''def'')] \<and>
   spec_reassemble 2 [] [(1, ''abc'', 0), (3, ''def'', 0)] =
     [Why ''waiting_frag'', Why ''waiting_frag'']"
proof -
  have u: "[1 .. 2::int] = [1, 2]"
    by (simp add: upto.simps)
  have a: "map nmea_fields [''!AIVDM,2,1,3,A,abc,0*00'', ''!AIVDM,2,3,3,A,def,0*00''] =
     map (\<lambda>(k, p, f). Info (2, k, ''3'', ''A'', p, f)) [(1, ''abc'', 0), (3, ''def'', 0)]"
    by (simp add: nmea_fields_def str_defs)
  have b: "run_nmea Map.empty [''!AIVDM,2,1,3,A,abc,0*00'', ''!AIVDM,2,3,3,A,def,0*00''] =
     [Why ''waiting_frag'', Info (''abc'', 0)]"
    by (simp add: parse_nmea_def nmea_fields_def assemble_def str_defs join_payloads_def u)
  have c: "\<not> all_arrived 2 [(1, ''abc''), (3, ''def'')]"
    by (simp add: all_arrived_def u)
  have d: "spec_reassemble 2 [] [(1, ''abc'', 0), (3, ''def'', 0)] =
     [Why ''waiting_frag'', Why ''waiting_frag'']"
    by (simp add: all_arrived_def u)
  from a b c d show ?thesis by blast
qed

section \<open>ADS-B change detection\<close>





lemma haversine_py_fin:
  "haversine_py R (Fin a) (Fin b) (Fin c) (Fin d) = Some (Fin (haversine R a b c d))"
  by (simp add: haversine_py_def is_inf_def)


lemma is_fin_val: "is_fin x \<Longrightarrow> x = Fin (val x)"
  by (cases x) simp_all















lemma replicate_numeral: "replicate (numeral k) x = x # replicate (pred_numeral k) x"
  by (simp add: numeral_eq_Suc)

lemmas ctx_eval = replicate_numeral
  record_ctx_def Let_def case_prod_beta name_from_callsign_or_hex_def normalize_callsign_def
  upper_def upper_char_def ljust_def adsb_init_def no_meta_def is_AZ09_def

lemmas adsb_eval =
  seen_def landed_stage_def emit_stage_def throttle_def identity_step_def send_step_def
  final_name_def renaming_def need_send_def make_adsb_aprs_object_def delete_event_def
  LANDED_ALT_FT_def LAND_CLEAR_ALT_def MAX_PKTS_PER_SEC_def ADD_DISTANCE_MI_def
  CLEAR_DISTANCE_MI_def LANDED_WAIT_SEC_def py_trunc_def show_int_def digit_char_def
  zero_pad_def trk360_def dm_lat_def dm_lon_def int_part_def state_changed_def trk_changed_def
  MIN_MOVE_MI_def MIN_UPDATE_SEC_def EPS_LATLON_DEG_def EPS_ALT_FT_def EPS_GS_KT_def
  EPS_TRK_DEG_def

lemma ctx_abc123:
  "record_ctx Map.empty s
     \<lparr> m_icao = Some ''ABC123'', m_callsign = None, m_lat = Fin KBUF_LAT, m_lon = Fin KBUF_LON,
       m_trk = t, m_gs = g, m_alt = a \<rparr> =
   \<lparr> icao_hex = ''ABC123'', callsign = None, desired_name = ''ABC123   '',
     table = CHR ''/'', code = CHR ''^'', sym_tag = ''PLANE'', dist_kbuf = Some (Fin 0),
     current_name_for_hex =
       (case hex_to_name s ''ABC123'' of None \<Rightarrow> None | Some n \<Rightarrow> if n = [] then None else Some n),
     tracked_name =
       (case (case hex_to_name s ''ABC123'' of
                None \<Rightarrow> None | Some n \<Rightarrow> if n = [] then None else Some n) of
          None \<Rightarrow> ''ABC123   '' | Some n \<Rightarrow> n) \<rparr>"
  by (simp add: ctx_eval symbol_for_category_def haversine_miles_py_def haversine_py_fin
      haversine_self cong: option.case_cong)








section \<open>ADS-B landed suppression\<close>

lemma rename_landed_block: "landed_block (rename s c cur) = landed_block s"
  by (simp add: rename_def Let_def split: option.splits)

lemma identity_step_landed_block: "landed_block (identity_step s c now) = landed_block s"
  by (simp add: identity_step_def Let_def rename_landed_block split: option.splits)

lemma send_step_landed_block:
  "landed_block (fst (send_step s c msg now hhmmss send_ok)) = landed_block s"
  by (simp add: send_step_def Let_def split: option.splits)

lemma throttle_landed_block: "landed_block (throttle s now) = landed_block s"
  by (simp add: throttle_def)

lemma emit_stage_landed_block:
  "landed_block (fst (emit_stage s c msg now hhmmss send_ok)) = landed_block s"
  by (simp add: emit_stage_def Let_def case_prod_beta send_step_landed_block
      identity_step_landed_block throttle_landed_block)

lemma f_le_not_gt: "f_le a 1000 \<Longrightarrow> \<not> f_gt a 1500"
  by (cases a) simp_all

lemma landed_stage_blocked:
  assumes blk: "tracked_name c \<in> landed_block s"
  shows "landed_stage s c msg now hhmmss send_ok =
     (case m_alt msg of
        None \<Rightarrow>
          emit_stage (s \<lparr> landed_block := landed_block s - {tracked_name c},
                          low_alt_since := (low_alt_since s)(tracked_name c := None) \<rparr>)
            c msg now hhmmss send_ok
      | Some a \<Rightarrow>
          if f_le a 1000 then (s, [])
          else if \<not> f_gt a 1500 then
            emit_stage (s \<lparr> low_alt_since := (low_alt_since s)(tracked_name c := None) \<rparr>)
              c msg now hhmmss send_ok
          else
            emit_stage (s \<lparr> landed_block := landed_block s - {tracked_name c},
                            low_alt_since := (low_alt_since s)(tracked_name c := None) \<rparr>)
              c msg now hhmmss send_ok)"
proof (cases "m_alt msg")
  case None
  then show ?thesis using blk
    by (simp add: landed_stage_def Let_def)
next
  case (Some a)
  consider "f_le a 1000" | "\<not> f_le a 1000" "\<not> f_gt a 1500" | "\<not> f_le a 1000" "f_gt a 1500"
    by blast
  then show ?thesis
  proof cases
    case 1
    then show ?thesis using blk Some f_le_not_gt [OF 1]
      by (simp add: landed_stage_def Let_def LANDED_ALT_FT_def LAND_CLEAR_ALT_def)
  next
    case 2
    then show ?thesis using blk Some
      by (simp add: landed_stage_def Let_def LANDED_ALT_FT_def LAND_CLEAR_ALT_def)
  next
    case 3
    then show ?thesis using blk Some
      by (simp add: landed_stage_def Let_def LANDED_ALT_FT_def LAND_CLEAR_ALT_def)
  qed
qed

lemma adsb_record_gate:
  assumes "dist_kbuf (record_ctx mc s msg) = Some d"
    and "(seen s (tracked_name (record_ctx mc s msg)) \<and> \<not> f_gt d 40) \<or>
         (\<not> seen s (tracked_name (record_ctx mc s msg)) \<and> \<not> f_gt d 35)"
  shows "adsb_record mc s msg now hhmmss send_ok =
         landed_stage s (record_ctx mc s msg) msg now hhmmss send_ok"
  using assms by (auto simp: adsb_record_def Let_def CLEAR_DISTANCE_MI_def ADD_DISTANCE_MI_def)

lemma ctx_dist:
  "dist_kbuf (record_ctx mc s msg) =
     haversine_miles_py (Fin KBUF_LAT) (Fin KBUF_LON) (m_lat msg) (m_lon msg)"
  by (simp add: record_ctx_def Let_def case_prod_beta)

text \<open>
  C3, as amended. For a record that passes the range gates and whose tracked name is in
  the landed suppression set: with a known altitude of at most LANDED_ALT_FT = 1000 ft
  the record is silently ignored (no send, no state change); the name stays in the set
  exactly when the altitude is known and not above LAND_CLEAR_ALT = 1500 ft, so the
  suppression is cleared by an unknown altitude as well as by one above 1500 ft; a record
  with an altitude above 1000 ft or unknown goes on to the throttle and the emission.
  The comparisons are those of the source, \<open>alt <= 1000\<close> and \<open>alt > 1500\<close>: on a finite
  altitude \<open>\<not> f_le a 1000\<close> is \<open>1000 < a\<close> and \<open>\<not> f_gt a 1500\<close> is \<open>a \<le> 1500\<close>; an altitude
  that is NaN fails both and is treated like one between 1000 and 1500 ft.
\<close>

theorem landed_suppression:
  assumes c: "c = record_ctx mc s msg"
    and d: "haversine_miles_py (Fin KBUF_LAT) (Fin KBUF_LON) (m_lat msg) (m_lon msg) = Some d"
    and gate: "(seen s (tracked_name c) \<and> \<not> f_gt d 40) \<or>
               (\<not> seen s (tracked_name c) \<and> \<not> f_gt d 35)"
    and blk: "tracked_name c \<in> landed_block s"
    and r: "adsb_record mc s msg now hhmmss send_ok = (s', evs)"
  shows
    "((\<exists>a. m_alt msg = Some a \<and> f_le a 1000) \<longrightarrow> s' = s \<and> evs = []) \<and>
     ((tracked_name c \<in> landed_block s') = (\<exists>a. m_alt msg = Some a \<and> \<not> f_gt a 1500)) \<and>
     ((\<exists>a. m_alt msg = Some a \<and> \<not> f_le a 1000 \<and> \<not> f_gt a 1500) \<longrightarrow>
        (s', evs) =
          emit_stage (s \<lparr> low_alt_since := (low_alt_since s)(tracked_name c := None) \<rparr>)
            c msg now hhmmss send_ok) \<and>
     (m_alt msg = None \<or> (\<exists>a. m_alt msg = Some a \<and> f_gt a 1500) \<longrightarrow>
        (s', evs) =
          emit_stage (s \<lparr> landed_block := landed_block s - {tracked_name c},
                          low_alt_since := (low_alt_since s)(tracked_name c := None) \<rparr>)
            c msg now hhmmss send_ok)"
proof -
  have dk: "dist_kbuf (record_ctx mc s msg) = Some d"
    unfolding ctx_dist by (rule d)
  from adsb_record_gate [OF dk gate [unfolded c], of now hhmmss send_ok] r
  have l: "landed_stage s c msg now hhmmss send_ok = (s', evs)"
    by (simp add: c)
  note b = landed_stage_blocked [OF blk, of msg now hhmmss send_ok]
  show ?thesis
  proof (cases "m_alt msg")
    case None
    with b l have e: "(s', evs) = emit_stage (s \<lparr> landed_block := landed_block s - {tracked_name c},
                          low_alt_since := (low_alt_since s)(tracked_name c := None) \<rparr>)
            c msg now hhmmss send_ok" by simp
      from arg_cong [OF e, of fst] have "landed_block s' = landed_block s - {tracked_name c}"
        by (simp add: emit_stage_landed_block)
    with e None show ?thesis by simp
  next
    case (Some a)
    consider "f_le a 1000" | "\<not> f_le a 1000" "\<not> f_gt a 1500" | "\<not> f_le a 1000" "f_gt a 1500"
      by blast
    then show ?thesis
    proof cases
      case 1
      with b l Some blk f_le_not_gt [OF 1] show ?thesis by auto
    next
      case 2
      with b l Some have e: "(s', evs) =
          emit_stage (s \<lparr> low_alt_since := (low_alt_since s)(tracked_name c := None) \<rparr>)
            c msg now hhmmss send_ok" by simp
      from arg_cong [OF e, of fst] have "landed_block s' = landed_block s"
        by (simp add: emit_stage_landed_block)
      with e Some 2 blk show ?thesis by simp
    next
      case 3
      with b l Some have e: "(s', evs) = emit_stage (s \<lparr> landed_block := landed_block s - {tracked_name c},
                          low_alt_since := (low_alt_since s)(tracked_name c := None) \<rparr>)
            c msg now hhmmss send_ok" by simp
      from arg_cong [OF e, of fst] have "landed_block s' = landed_block s - {tracked_name c}"
        by (simp add: emit_stage_landed_block)
      with e Some 3 show ?thesis by simp
    qed
  qed
qed

text \<open>
  The claim as stated, that a suppressed track is ignored while its altitude is unknown
  or at most 1500 ft, fails: a suppressed track reporting 1200 ft at the reference point
  is sent, and one reporting no altitude leaves the suppression set.
\<close>

theorem landed_suppression_counterexample:
  "''ABC123   '' \<in> landed_block (adsb_init \<lparr> landed_block := {''ABC123   ''} \<rparr>) \<and>
   tracked_name (record_ctx Map.empty (adsb_init \<lparr> landed_block := {''ABC123   ''} \<rparr>)
     \<lparr> m_icao = Some ''ABC123'', m_callsign = None, m_lat = Fin KBUF_LAT, m_lon = Fin KBUF_LON,
       m_trk = None, m_gs = None, m_alt = Some (Fin 1200) \<rparr>) = ''ABC123   '' \<and>
   snd (adsb_record Map.empty (adsb_init \<lparr> landed_block := {''ABC123   ''} \<rparr>)
     \<lparr> m_icao = Some ''ABC123'', m_callsign = None, m_lat = Fin KBUF_LAT, m_lon = Fin KBUF_LON,
       m_trk = None, m_gs = None, m_alt = Some (Fin 1200) \<rparr> 100 ''120000'' True) =
     [Pos 100 \<lparr> ob_name = ''ABC123   '', ob_ts = ''120000z'', ob_lat = KBUF_LAT,
                 ob_lon = KBUF_LON, ob_table = CHR ''/'', ob_code = CHR ''^'',
                 ob_comment = ''ALT 1200ft ICAO ABC123 SYM PLANE'' \<rparr>] \<and>
   ''ABC123   '' \<notin> landed_block (fst (adsb_record Map.empty
     (adsb_init \<lparr> landed_block := {''ABC123   ''} \<rparr>)
     \<lparr> m_icao = Some ''ABC123'', m_callsign = None, m_lat = Fin KBUF_LAT, m_lon = Fin KBUF_LON,
       m_trk = None, m_gs = None, m_alt = None \<rparr> 100 ''120000'' True))"
proof -
  have sn: "show_nat 1200 = ''1200''"
    by (simp add: show_nat.simps digit_char_def)
  show ?thesis
    unfolding adsb_record_def ctx_abc123 Let_def
    by (simp add: adsb_eval adsb_init_def sn Let_def normalize_callsign_def)
qed

text \<open>A suppressed track reporting 800 ft within range: nothing is sent, nothing changes.\<close>

theorem landed_suppression_witness:
  "adsb_record Map.empty (adsb_init \<lparr> landed_block := {''ABC123   ''} \<rparr>)
     \<lparr> m_icao = Some ''ABC123'', m_callsign = None, m_lat = Fin KBUF_LAT, m_lon = Fin KBUF_LON,
       m_trk = None, m_gs = None, m_alt = Some (Fin 800) \<rparr> 100 ''120000'' True =
   (adsb_init \<lparr> landed_block := {''ABC123   ''} \<rparr>, [])"
proof -
  define s0 where "s0 = adsb_init \<lparr> landed_block := {''ABC123   ''} \<rparr>"
  define m where "m = \<lparr> m_icao = Some ''ABC123'', m_callsign = None, m_lat = Fin KBUF_LAT,
    m_lon = Fin KBUF_LON, m_trk = None, m_gs = None, m_alt = Some (Fin 800) \<rparr>"
  have h: "hex_to_name s0 ''ABC123'' = None" by (simp add: s0_def adsb_init_def)
  have t: "tracked_name (record_ctx Map.empty s0 m) = ''ABC123   ''"
    unfolding m_def ctx_abc123 by (simp add: h)
  have n: "\<not> seen s0 ''ABC123   ''" by (simp add: seen_def s0_def adsb_init_def)
  have b: "''ABC123   '' \<in> landed_block s0" by (simp add: s0_def)
  have d0: "haversine_miles_py (Fin KBUF_LAT) (Fin KBUF_LON) (m_lat m) (m_lon m) = Some (Fin 0)"
    by (simp add: m_def haversine_miles_py_def haversine_py_fin haversine_self)
  have g: "(seen s0 (tracked_name (record_ctx Map.empty s0 m)) \<and> \<not> f_gt (Fin 0) 40) \<or>
           (\<not> seen s0 (tracked_name (record_ctx Map.empty s0 m)) \<and> \<not> f_gt (Fin 0) 35)"
    by (simp add: t n)
  have bl: "tracked_name (record_ctx Map.empty s0 m) \<in> landed_block s0"
    by (simp add: t b)
  have a: "\<exists>a. m_alt m = Some a \<and> f_le a 1000" by (simp add: m_def)
  from landed_suppression [OF refl d0 g bl prod.collapse [symmetric],
      where now = 100 and hhmmss = "''120000''" and send_ok = True] a
  have "adsb_record Map.empty s0 m 100 ''120000'' True = (s0, [])"
    by (simp add: prod_eq_iff)
  then show ?thesis unfolding s0_def m_def .
qed

section \<open>ADS-B range hysteresis\<close>





lemma ctx_desired:
  "desired_name (record_ctx mc s msg) =
     name_from_callsign_or_hex (callsign (record_ctx mc s msg)) (Some (icao_hex (record_ctx mc s msg)))"
  by (simp add: record_ctx_def Let_def case_prod_beta)


lemma ctx_tracked:
  "tracked_name (record_ctx mc s msg) =
     (case current_name_for_hex (record_ctx mc s msg) of
        None \<Rightarrow> desired_name (record_ctx mc s msg) | Some n \<Rightarrow> n)"
  by (simp add: record_ctx_def Let_def case_prod_beta cong: option.case_cong)
























end
